theory Spec2Isabelle
  imports Complex_Main "HOL-Library.Char_ord" "HOL-Library.List_Lexorder"
begin

section \<open>Printing counts\<close>

text \<open>
  The template literals of the source print sample counts and lag lengths, which
  are integers; \<open>showInt\<close> is their decimal rendering.
\<close>

definition digit :: "nat \<Rightarrow> char" where
  "digit d = char_of (48 + d)"

function showNat :: "nat \<Rightarrow> string" where
  "showNat n = (if n < 10 then [digit n] else showNat (n div 10) @ [digit (n mod 10)])"
  by pat_completeness auto
termination
  by (relation "measure id") auto

declare showNat.simps [simp del]

definition showInt :: "int \<Rightarrow> string" where
  "showInt i = (if i < 0 then ''-'' @ showNat (nat (- i)) else showNat (nat i))"

section \<open>JavaScript numbers\<close>

text \<open>
  A JavaScript number is an IEEE 754 binary64 value: a finite value (a rational of
  the form \<open>m * 2^e\<close> with \<open>|m| < 2^53\<close> and \<open>-1074 \<le> e \<le> 971\<close>), an infinity or
  NaN. Arithmetic computes the exact rational result and rounds it to the nearest
  binary64 value, ties to the even significand (\<open>round64\<close>), overflowing to an
  infinity. The sign of zero is not tracked: a zero result is \<open>+0\<close>.
\<close>

datatype jsnum = Fin rat | PInf | NInf | NaN

function bitlen :: "nat \<Rightarrow> nat" where
  "bitlen n = (if n = 0 then 0 else Suc (bitlen (n div 2)))"
  by pat_completeness auto
termination
  by (relation "measure id") auto

declare bitlen.simps [simp del]

text \<open>\<open>exponent a\<close>, for \<open>a > 0\<close>, is the integer \<open>e\<close> with \<open>2^e \<le> a < 2^(e+1)\<close>.\<close>

definition exponent :: "rat \<Rightarrow> int" where
  "exponent a = (if 1 \<le> a then int (bitlen (nat \<lfloor>a\<rfloor>)) - 1
                 else - int (bitlen (nat (\<lceil>1 / a\<rceil> - 1))))"

definition roundHalfEven :: "rat \<Rightarrow> int" where
  "roundHalfEven x = (let f = \<lfloor>x\<rfloor>; d = x - of_int f in
     if d < 1 / 2 then f else if 1 / 2 < d then f + 1 else if even f then f else f + 1)"

definition scale2 :: "rat \<Rightarrow> int \<Rightarrow> rat" where
  "scale2 a s = (if 0 \<le> s then a * of_int (2 ^ nat s) else a / of_int (2 ^ nat (- s)))"

text \<open>
  \<open>pack64 neg e m\<close> is the value with sign \<open>neg\<close>, significand \<open>m \<le> 2^53\<close> and unit
  in the last place \<open>2^(e - 52)\<close>; it is an infinity from \<open>2^1024\<close> on.
\<close>

definition pack64 :: "bool \<Rightarrow> int \<Rightarrow> int \<Rightarrow> jsnum" where
  "pack64 neg e m =
     (if 1023 < e \<or> (e = 1023 \<and> m = 2 ^ 53) then (if neg then NInf else PInf)
      else Fin (scale2 (of_int (if neg then - m else m)) (e - 52)))"

definition roundAt :: "rat \<Rightarrow> int \<Rightarrow> jsnum" where
  "roundAt q e = pack64 (q < 0) e (roundHalfEven (scale2 \<bar>q\<bar> (52 - e)))"

text \<open>Subnormal values share the exponent \<open>-1022\<close> of the smallest normal ones.\<close>

definition round64 :: "rat \<Rightarrow> jsnum" where
  "round64 q = (if q = 0 then Fin 0 else roundAt q (max (exponent \<bar>q\<bar>) (- 1022)))"

fun jneg :: "jsnum \<Rightarrow> jsnum" where
  "jneg (Fin a) = Fin (- a)"
| "jneg PInf = NInf"
| "jneg NInf = PInf"
| "jneg NaN = NaN"

fun jabs :: "jsnum \<Rightarrow> jsnum" where
  "jabs (Fin a) = Fin \<bar>a\<bar>"
| "jabs PInf = PInf"
| "jabs NInf = PInf"
| "jabs NaN = NaN"

fun jadd :: "jsnum \<Rightarrow> jsnum \<Rightarrow> jsnum" where
  "jadd (Fin a) (Fin b) = round64 (a + b)"
| "jadd NaN y = NaN"
| "jadd x NaN = NaN"
| "jadd PInf NInf = NaN"
| "jadd NInf PInf = NaN"
| "jadd PInf y = PInf"
| "jadd x PInf = PInf"
| "jadd NInf y = NInf"
| "jadd x NInf = NInf"

definition jsub :: "jsnum \<Rightarrow> jsnum \<Rightarrow> jsnum" where
  "jsub x y = jadd x (jneg y)"

fun jmul :: "jsnum \<Rightarrow> jsnum \<Rightarrow> jsnum" where
  "jmul (Fin a) (Fin b) = round64 (a * b)"
| "jmul NaN y = NaN"
| "jmul x NaN = NaN"
| "jmul (Fin a) y = (if a = 0 then NaN else if 0 < a then y else jneg y)"
| "jmul x (Fin b) = (if b = 0 then NaN else if 0 < b then x else jneg x)"
| "jmul PInf y = y"
| "jmul NInf y = jneg y"

fun jdiv :: "jsnum \<Rightarrow> jsnum \<Rightarrow> jsnum" where
  "jdiv (Fin a) (Fin b) =
     (if b = 0 then (if a = 0 then NaN else if 0 < a then PInf else NInf)
      else round64 (a / b))"
| "jdiv NaN y = NaN"
| "jdiv x NaN = NaN"
| "jdiv (Fin a) y = Fin 0"
| "jdiv x (Fin b) = (if 0 \<le> b then x else jneg x)"
| "jdiv PInf y = NaN"
| "jdiv NInf y = NaN"

text \<open>Comparisons: every comparison with NaN is false.\<close>

fun jlt :: "jsnum \<Rightarrow> jsnum \<Rightarrow> bool" where
  "jlt (Fin a) (Fin b) = (a < b)"
| "jlt NaN y = False"
| "jlt x NaN = False"
| "jlt x NInf = False"
| "jlt PInf y = False"
| "jlt (Fin a) PInf = True"
| "jlt NInf y = True"

definition jgt :: "jsnum \<Rightarrow> jsnum \<Rightarrow> bool" where
  "jgt x y = jlt y x"

text \<open>
  The library functions \<open>Math.sqrt\<close>, \<open>Math.exp\<close> and \<open>Math.log\<close> are the host's;
  the functions that call them take them as the parameter \<open>M\<close>. \<open>Math.pow(v, 2)\<close>
  is the rounded product \<open>v * v\<close>.
\<close>

record math =
  Math_sqrt :: "jsnum \<Rightarrow> jsnum"
  Math_exp :: "jsnum \<Rightarrow> jsnum"
  Math_log :: "jsnum \<Rightarrow> jsnum"

text \<open>
  No theorem below depends on what the library functions return. Where a closed
  instance of a theorem needs some library, it takes \<open>nanMath\<close>.
\<close>

definition nanMath :: math where
  "nanMath = \<lparr>Math_sqrt = (\<lambda>x. NaN), Math_exp = (\<lambda>x. NaN), Math_log = (\<lambda>x. NaN)\<rparr>"

definition pow2 :: "jsnum \<Rightarrow> jsnum" where
  "pow2 v = jmul v v"

subsection \<open>Values of object fields and array elements\<close>

text \<open>
  A field or array element that the source treats as a number holds a number,
  \<open>null\<close> or \<open>undefined\<close> (the value read from an absent key).
\<close>

datatype jsval = Undefined | Null | Number jsnum

fun toNumber :: "jsval \<Rightarrow> jsnum" where
  "toNumber Undefined = NaN"
| "toNumber Null = Fin 0"
| "toNumber (Number x) = x"

fun truthy :: "jsval \<Rightarrow> bool" where
  "truthy Undefined = False"
| "truthy Null = False"
| "truthy (Number (Fin a)) = (a \<noteq> 0)"
| "truthy (Number NaN) = False"
| "truthy (Number x) = True"

text \<open>\<open>v || null\<close>\<close>

definition orNull :: "jsval \<Rightarrow> jsval" where
  "orNull v = (if truthy v then v else Null)"

text \<open>The global \<open>isNaN\<close>, which converts its argument to a number first.\<close>

definition isNaN :: "jsval \<Rightarrow> bool" where
  "isNaN v = (toNumber v = NaN)"

text \<open>\<open>xs.reduce((sum, v) => sum + v, 0)\<close>\<close>

definition sumJs :: "jsval list \<Rightarrow> jsnum" where
  "sumJs xs = foldl (\<lambda>s v. jadd s (toNumber v)) (Fin 0) xs"

text \<open>
  Reading an index of an array of numbers: out of range the source reads
  \<open>undefined\<close>, which every arithmetic operation turns into NaN.
\<close>

definition idx :: "jsnum list \<Rightarrow> nat \<Rightarrow> jsnum" where
  "idx xs i = (if i < length xs then xs ! i else NaN)"

definition idxv :: "jsval list \<Rightarrow> nat \<Rightarrow> jsval" where
  "idxv xs i = (if i < length xs then xs ! i else Undefined)"

text \<open>The exceptions of the source are values: \<open>Inl\<close> of the error thrown.\<close>

datatype error = TypeError

section \<open>Linear algebra kernel (econometricAnalysis)\<close>

type_synonym vector = "jsnum list"
type_synonym matrix = "jsnum list list"

text \<open>
  \<open>transpose(matrix)\<close> maps over \<open>matrix[0]\<close>, so it throws on a matrix with no
  rows.
\<close>

definition transposeM :: "matrix \<Rightarrow> error + matrix" where
  "transposeM m =
     (case m of
        [] \<Rightarrow> Inl TypeError
      | r # rs \<Rightarrow> Inr (map (\<lambda>colIndex. map (\<lambda>row. idx row colIndex) m) [0..<length r]))"

text \<open>
  \<open>matrixMultiply(a, b)\<close>: with no rows in \<open>a\<close> the loops do not run; otherwise
  \<open>b[0].length\<close> throws when \<open>b\<close> has no rows, and \<open>b[k][j]\<close> throws when \<open>b\<close> has
  fewer rows than \<open>a[0]\<close> has entries.
\<close>

definition matrixMultiply :: "matrix \<Rightarrow> matrix \<Rightarrow> error + matrix" where
  "matrixMultiply a b =
     (case a of
        [] \<Rightarrow> Inr []
      | a0 # as \<Rightarrow>
         (case b of
            [] \<Rightarrow> Inl TypeError
          | b0 # bs \<Rightarrow>
              if b0 \<noteq> [] \<and> length b < length a0 then Inl TypeError
              else Inr (map (\<lambda>i. map (\<lambda>j.
                     foldl (\<lambda>sum k. jadd sum (jmul (idx (a ! i) k) (idx (b ! k) j)))
                       (Fin 0) [0..<length a0])
                     [0..<length b0])
                   [0..<length a])))"

definition matrixVectorMultiply :: "matrix \<Rightarrow> vector \<Rightarrow> vector" where
  "matrixVectorMultiply m v =
     map (\<lambda>row. foldl (\<lambda>sum i. jadd sum (jmul (row ! i) (idx v i))) (Fin 0) [0..<length row]) m"

text \<open>
  \<open>solveLinearSystem(A, b)\<close>. The callers pass a square \<open>A\<close> (\<open>n\<close> rows of \<open>n\<close>
  entries) and \<open>b\<close> of length \<open>n\<close>, so that every row of the augmented matrix has
  \<open>n + 1\<close> entries and every index written is in range.
\<close>

definition findPivot :: "matrix \<Rightarrow> nat \<Rightarrow> nat \<Rightarrow> nat" where
  "findPivot augmented i n =
     foldl (\<lambda>maxRow k.
              if jgt (jabs (idx (augmented ! k) i)) (jabs (idx (augmented ! maxRow) i))
              then k else maxRow)
       i [i + 1..<n]"

definition swapRows :: "matrix \<Rightarrow> nat \<Rightarrow> nat \<Rightarrow> matrix" where
  "swapRows augmented i maxRow = augmented[i := augmented ! maxRow, maxRow := augmented ! i]"

definition eliminateRow :: "matrix \<Rightarrow> nat \<Rightarrow> nat \<Rightarrow> nat \<Rightarrow> matrix" where
  "eliminateRow augmented i n k =
     (let factor = jdiv (idx (augmented ! k) i) (idx (augmented ! i) i) in
      augmented[k :=
        foldl (\<lambda>row j. row[j := jsub (idx row j) (jmul factor (idx (augmented ! i) j))])
          (augmented ! k) [i..<n + 1]])"

definition forwardStep :: "nat \<Rightarrow> matrix \<Rightarrow> nat \<Rightarrow> matrix" where
  "forwardStep n augmented i =
     foldl (\<lambda>aug k. eliminateRow aug i n k)
       (swapRows augmented i (findPivot augmented i n)) [i + 1..<n]"

definition backStep :: "matrix \<Rightarrow> nat \<Rightarrow> vector \<Rightarrow> nat \<Rightarrow> vector" where
  "backStep augmented n x i =
     (let v = foldl (\<lambda>xi j. jsub xi (jmul (idx (augmented ! i) j) (idx x j)))
                (idx (augmented ! i) n) [i + 1..<n]
      in x[i := jdiv v (idx (augmented ! i) i)])"

text \<open>
  The result is \<open>Some\<close> of the array \<open>x\<close>; \<open>None\<close> would be a falsy return value,
  the one the check \<open>if (!coefficients)\<close> of the callers looks for. The source
  has no such return.
\<close>

definition solveLinearSystem :: "matrix \<Rightarrow> vector \<Rightarrow> vector option" where
  "solveLinearSystem A b =
     (let n = length A;
          augmented = map (\<lambda>i. (A ! i) @ [idx b i]) [0..<n];
          eliminated = foldl (forwardStep n) augmented [0..<n]
      in Some (foldl (backStep eliminated n) (replicate n NaN) (rev [0..<n])))"

definition calculateStandardErrors :: "math \<Rightarrow> matrix \<Rightarrow> jsnum \<Rightarrow> vector" where
  "calculateStandardErrors M XtX mse =
     map (\<lambda>i. Math_sqrt M (jmul mse (jabs (idx (XtX ! i) i)))) [0..<length XtX]"

section \<open>Statistical primitives (econometricAnalysis)\<close>

definition erf :: "math \<Rightarrow> jsnum \<Rightarrow> jsnum" where
  "erf M x0 =
     (let a1 = round64 (254829592 / 10 ^ 9);
          a2 = round64 (- 284496736 / 10 ^ 9);
          a3 = round64 (1421413741 / 10 ^ 9);
          a4 = round64 (- 1453152027 / 10 ^ 9);
          a5 = round64 (1061405429 / 10 ^ 9);
          p = round64 (3275911 / 10 ^ 7);
          sign = (if jlt x0 (Fin 0) then Fin (- 1) else Fin 1);
          x = jabs x0;
          t = jdiv (Fin 1) (jadd (Fin 1) (jmul p x));
          poly = jadd (jmul (jadd (jmul (jadd (jmul (jadd (jmul a5 t) a4) t) a3) t) a2) t) a1;
          y = jsub (Fin 1) (jmul (jmul poly t) (Math_exp M (jmul (jneg x) x)))
      in jmul sign y)"

definition normalCDF :: "math \<Rightarrow> jsnum \<Rightarrow> jsnum" where
  "normalCDF M z = jmul (Fin (1 / 2)) (jadd (Fin 1) (erf M (jdiv z (Math_sqrt M (Fin 2)))))"

definition approximatePValue :: "math \<Rightarrow> jsnum \<Rightarrow> int \<Rightarrow> jsnum" where
  "approximatePValue M tStat df =
     (if 30 < df then
        (let z = jabs tStat in jmul (Fin 2) (jsub (Fin 1) (normalCDF M z)))
      else
        (let absT = jabs tStat in
         if jlt absT (Fin (1 / 2)) then round64 (6 / 10)
         else if jlt absT (Fin 1) then round64 (3 / 10)
         else if jlt absT (Fin (3 / 2)) then round64 (15 / 100)
         else if jlt absT (Fin 2) then round64 (5 / 100)
         else if jlt absT (Fin (5 / 2)) then round64 (2 / 100)
         else if jlt absT (Fin 3) then round64 (1 / 100)
         else round64 (1 / 1000)))"


text \<open>
  The results of the two regressions share the keys \<open>rSquared\<close> and \<open>n\<close> (here
  \<open>nObs\<close>).
\<close>

record olsCommon =
  rSquared :: jsnum
  nObs :: nat

record simpleFit = olsCommon +
  intercept :: jsnum
  slope :: jsnum
  standardError :: jsnum
  seSlope :: jsnum
  tStat :: jsnum
  pValue :: jsnum

record multipleFit = olsCommon +
  coefficients :: vector
  standardErrors :: vector
  tStats :: vector
  pValues :: vector

text \<open>\<open>v !== null && !isNaN(v)\<close>\<close>

definition validValue :: "jsval \<Rightarrow> bool" where
  "validValue v = (v \<noteq> Null \<and> \<not> isNaN v)"

text \<open>
  The loop of \<open>simpleOLS\<close> that fills \<open>validPairs\<close>, over the indices below
  \<open>Math.min(y.length, x.length)\<close>. A pair \<open>(py, px)\<close> is the object \<open>{ y, x }\<close>
  it pushes.
\<close>

definition validPairs :: "jsval list \<Rightarrow> jsval list \<Rightarrow> (jsnum \<times> jsnum) list" where
  "validPairs y x =
     map (\<lambda>(yi, xi). (toNumber yi, toNumber xi))
       (filter (\<lambda>(yi, xi). validValue yi \<and> validValue xi) (zip y x))"

text \<open>\<open>simpleOLS(y, x)\<close>; \<open>None\<close> is the \<open>null\<close> it returns.\<close>

definition simpleOLS :: "math \<Rightarrow> jsval list \<Rightarrow> jsval list \<Rightarrow> simpleFit option" where
  "simpleOLS M y x =
     (let validPairs = validPairs y x
      in if length validPairs < 2 then None
      else
        let nValid = Fin (of_nat (length validPairs));
            sumX = foldl (\<lambda>sum (py, px). jadd sum px) (Fin 0) validPairs;
            sumY = foldl (\<lambda>sum (py, px). jadd sum py) (Fin 0) validPairs;
            sumXY = foldl (\<lambda>sum (py, px). jadd sum (jmul px py)) (Fin 0) validPairs;
            sumXX = foldl (\<lambda>sum (py, px). jadd sum (jmul px px)) (Fin 0) validPairs;
            meanX = jdiv sumX nValid;
            meanY = jdiv sumY nValid;
            slope = jdiv (jsub sumXY (jmul (jmul nValid meanX) meanY))
                         (jsub sumXX (jmul (jmul nValid meanX) meanX));
            intercept = jsub meanY (jmul slope meanX);
            ssRes = foldl (\<lambda>sum (py, px).
                       jadd sum (pow2 (jsub py (jadd intercept (jmul slope px)))))
                     (Fin 0) validPairs;
            ssTot = foldl (\<lambda>sum (py, px). jadd sum (pow2 (jsub py meanY))) (Fin 0) validPairs;
            rSquared = (if jgt ssTot (Fin 0) then jsub (Fin 1) (jdiv ssRes ssTot) else Fin 0);
            standardError = Math_sqrt M (jdiv ssRes (jsub nValid (Fin 2)));
            seSlope = jdiv standardError
                        (Math_sqrt M
                          (foldl (\<lambda>sum (py, px). jadd sum (pow2 (jsub px meanX)))
                             (Fin 0) validPairs));
            tStat = (if jgt seSlope (Fin 0) then jdiv slope seSlope else Fin 0);
            pValue = approximatePValue M tStat (int (length validPairs) - 2)
        in Some \<lparr>rSquared = rSquared, nObs = length validPairs,
                 intercept = intercept, slope = slope, standardError = standardError,
                 seSlope = seSlope, tStat = tStat, pValue = pValue\<rparr>)"

text \<open>
  \<open>multipleOLS(y, x)\<close>: \<open>Inr None\<close> is the \<open>null\<close> it returns, \<open>Inl\<close> an exception.
  Index \<open>i\<close> is valid when \<open>y[i]\<close> and every \<open>x[j][i]\<close> are neither \<open>null\<close> nor NaN.
\<close>

definition validIndex :: "jsval list \<Rightarrow> jsval list list \<Rightarrow> nat \<Rightarrow> bool" where
  "validIndex y x i = (validValue (idxv y i) \<and> list_all (\<lambda>xj. validValue (idxv xj i)) x)"

definition multipleOLS :: "math \<Rightarrow> jsval list \<Rightarrow> jsval list list \<Rightarrow> error + multipleFit option" where
  "multipleOLS M y x =
     (let n = length y; k = length x in
      if n < k + 1 then Inr None
      else
        let validIndices = filter (validIndex y x) [0..<n] in
        if length validIndices < k + 1 then Inr None
        else
          let Y = map (\<lambda>i. toNumber (idxv y i)) validIndices;
              X = map (\<lambda>i. Fin 1 # map (\<lambda>j. toNumber (idxv (x ! j) i)) [0..<k]) validIndices
          in case transposeM X of
               Inl e \<Rightarrow> Inl e
             | Inr Xt \<Rightarrow>
                (case matrixMultiply Xt X of
                   Inl e \<Rightarrow> Inl e
                 | Inr XtX \<Rightarrow>
                    (case solveLinearSystem XtX (matrixVectorMultiply Xt Y) of
                       None \<Rightarrow> Inr None
                     | Some solution \<Rightarrow>
                        let coefficients = solution;
                            yPred = map (\<lambda>row.
                                      foldl (\<lambda>sum j.
                                          jadd sum (jmul (idx coefficients (j + 1)) (idx row (j + 1))))
                                        (idx coefficients 0) [0..<k]) X;
                            meanY = jdiv (foldl jadd (Fin 0) Y) (Fin (of_nat (length Y)));
                            ssRes = foldl (\<lambda>sum i. jadd sum (pow2 (jsub (Y ! i) (idx yPred i))))
                                      (Fin 0) [0..<length Y];
                            ssTot = foldl (\<lambda>sum yi. jadd sum (pow2 (jsub yi meanY))) (Fin 0) Y;
                            rSquared = (if jgt ssTot (Fin 0)
                                        then jsub (Fin 1) (jdiv ssRes ssTot) else Fin 0);
                            df = int (length validIndices) - int k - 1;
                            mse = jdiv ssRes (Fin (of_int df));
                            standardErrors = calculateStandardErrors M XtX mse;
                            tStats = map (\<lambda>i.
                                       if jgt (idx standardErrors i) (Fin 0)
                                       then jdiv (coefficients ! i) (idx standardErrors i)
                                       else Fin 0) [0..<length coefficients];
                            pValues = map (\<lambda>t. approximatePValue M t df) tStats
                        in Inr (Some \<lparr>rSquared = rSquared, nObs = length validIndices,
                                       coefficients = coefficients,
                                       standardErrors = standardErrors,
                                       tStats = tStats, pValues = pValues\<rparr>))))"

section \<open>Feasibility gate: lag length (dataValidation, \<open>determineFeasibleLagLength\<close>)\<close>

text \<open>
  The verdict objects of the gates and estimators share the keys \<open>feasible\<close> and
  \<open>reason\<close>; \<open>reason\<close> is \<open>None\<close> in an object without that key.
\<close>

record verdict =
  feasible :: bool
  reason :: "string option"

record lagVerdict = verdict +
  maxLag :: int

text \<open>
  The loop \<open>for (let k = 1; k <= 12; k++)\<close> with its \<open>break\<close>: \<open>lagLoop n k m\<close> is
  the value of \<open>maxLag\<close> at the end of the loop when the loop variable is \<open>k\<close> and
  \<open>maxLag\<close> is \<open>m\<close>.
\<close>

function lagLoop :: "int \<Rightarrow> int \<Rightarrow> int \<Rightarrow> int" where
  "lagLoop n k m =
     (if k \<le> 12 then
        (let requiredN = 10 + (k + 1) + 1 in
         if requiredN \<le> n then lagLoop n (k + 1) k else m)
      else m)"
  by pat_completeness auto
termination
  by (relation "measure (\<lambda>(n, k, m). nat (13 - k))") auto

declare lagLoop.simps [simp del]

text \<open>
  \<open>minParams\<close> is the third parameter of the source, whose default is 3; every
  caller in the repository leaves it out.
\<close>

definition determineFeasibleLagLength :: "int \<Rightarrow> string \<Rightarrow> int \<Rightarrow> lagVerdict" where
  "determineFeasibleLagLength n frequency minParams =
     (let minN = 20; minNForLags = 10 + minParams in
      if n < minN then
        \<lparr>feasible = False,
         reason = Some ''Insufficient observations for regression analysis'',
         maxLag = 0\<rparr>
      else if frequency = ''annual'' then
        (let k = (if minNForLags + 1 \<le> n then 1 else 0) in
         \<lparr>feasible = (0 < k),
          reason = Some (if k = 0 then ''Insufficient annual observations for lagged models''
                          else ''Annual data: maximum lag length K=1''),
          maxLag = k\<rparr>)
      else if n < minNForLags + 3 then
        \<lparr>feasible = False,
         reason = Some ''Insufficient observations for lagged models'',
         maxLag = 0\<rparr>
      else
        (let k0 = lagLoop n 1 0;
             k = (if n < 50 then min k0 3 else if n < 100 then min k0 6 else k0) in
         \<lparr>feasible = (0 < k),
          reason = Some (if k = 0 then ''Insufficient observations for lagged models''
                          else ''Monthly data: maximum feasible lag length K='' @ showInt k),
          maxLag = k\<rparr>))"

text \<open>
  The lag length as the specification words it: the largest \<open>k\<close> with
  \<open>n \<ge> 10 + (k + 1) + 1\<close>, which is \<open>n - 12\<close> (lemma \<open>largestLag_greatest\<close>),
  capped to 3 below 50 observations and to 6 below 100, with no other cap.
\<close>

definition largestLag :: "int \<Rightarrow> int" where
  "largestLag n = n - 12"

definition specMaxLagMonthly :: "int \<Rightarrow> int" where
  "specMaxLagMonthly n =
     (let k = largestLag n in
      if n < 50 then min k 3 else if n < 100 then min k 6 else k)"

text \<open>
  The same with the bound of the source's search: the loop tries \<open>k = 1, \<dots>, 12\<close>
  only, so the largest lag it can report is 12.
\<close>

definition searchedMaxLagMonthly :: "int \<Rightarrow> int" where
  "searchedMaxLagMonthly n =
     (let k = min (largestLag n) 12 in
      if n < 50 then min k 3 else if n < 100 then min k 6 else k)"

section \<open>Dataset alignment (dataProcessor, preprocessData)\<close>

text \<open>
  Every entry of a source series and every row of the panel carries \<open>date\<close>, a valid
  \<open>Date\<close> given by its time value, and the period key \<open>yearMonth\<close>, a string.
\<close>

record period =
  date :: int
  yearMonth :: string

record importTotal = period +
  totalQuantity_tons :: jsval
  totalValue_eur :: jsval
  unit_value :: jsval

record etsEntry = period +
  price :: jsval

record industryEntry = period +
  index :: jsval

text \<open>
  A panel row is an object with some of the keys below: \<open>mergeDatasets\<close> sets the
  first five, \<open>calculateDerivedIndicators\<close> adds the derived ones, the rows of
  \<open>aggregateToAnnual\<close> have \<open>year\<close> and \<open>frequency\<close> (here \<open>rowFrequency\<close>) and no
  growth rates or moving averages. A key the object does not have reads
  \<open>Undefined\<close>.
\<close>

record row = period +
  importQuantity_tons :: jsval
  importValue_eur :: jsval
  importUnitValue :: jsval
  etsPrice :: jsval
  industryIndex :: jsval
  importGrowth :: jsval
  importGrowthYoY :: jsval
  valueGrowth :: jsval
  etsGrowth :: jsval
  etsMA3 :: jsval
  etsMA12 :: jsval
  importMA3 :: jsval
  importMA12 :: jsval
  logImport :: jsval
  logETS :: jsval
  logIndustry :: jsval
  cbamDummy :: jsval
  year :: jsval
  rowFrequency :: "string option"

text \<open>The object with the keys \<open>date\<close> and \<open>yearMonth\<close> only.\<close>

definition newRow :: "int \<Rightarrow> string \<Rightarrow> row" where
  "newRow d p =
     \<lparr>date = d, yearMonth = p,
      importQuantity_tons = Undefined, importValue_eur = Undefined,
      importUnitValue = Undefined, etsPrice = Undefined, industryIndex = Undefined,
      importGrowth = Undefined, importGrowthYoY = Undefined,
      valueGrowth = Undefined, etsGrowth = Undefined,
      etsMA3 = Undefined, etsMA12 = Undefined,
      importMA3 = Undefined, importMA12 = Undefined,
      logImport = Undefined, logETS = Undefined, logIndustry = Undefined,
      cbamDummy = Undefined, year = Undefined, rowFrequency = None\<rparr>"

text \<open>\<open>entry?.key\<close>, for the result \<open>entry\<close> of \<open>Array.find\<close>.\<close>

definition optField :: "'a option \<Rightarrow> ('a \<Rightarrow> jsval) \<Rightarrow> jsval" where
  "optField entry key = (case entry of None \<Rightarrow> Undefined | Some e \<Rightarrow> key e)"

text \<open>
  \<open>mergeDatasets(importsAggregated, etsData, industryData)\<close>; the first argument
  here is \<open>importsAggregated.total\<close>. The set \<open>allPeriods\<close> is sorted at once, so the
  order in which it holds its keys does not matter; \<open>sort\<close> on strings is the
  lexicographic order of their characters, which is the default order of
  \<open>Array.prototype.sort\<close> on ASCII keys. The final sort is stable, by \<open>date\<close>: the two
  copies of the function in the source differ only in wrapping \<open>date\<close> in
  \<open>new Date\<close> there. \<open>mergeRow\<close> is the body of the \<open>forEach\<close>: no row when no series
  has the period, one row otherwise (its \<open>date\<close> is that of the first entry found,
  and the last \<open>None\<close> case of \<open>date\<close> is not reached).
\<close>

definition mergeRow ::
  "importTotal list \<Rightarrow> etsEntry list \<Rightarrow> industryEntry list \<Rightarrow> string \<Rightarrow> row list" where
  "mergeRow totals etsData industryData p =
     (let importEntry = find (\<lambda>i. yearMonth i = p) totals;
          etsEntry = find (\<lambda>e. yearMonth e = p) etsData;
          industryEntry = find (\<lambda>i. yearMonth i = p) industryData
      in if importEntry = None \<and> etsEntry = None \<and> industryEntry = None then []
         else
           [(newRow
               (case importEntry of Some i \<Rightarrow> date i
                | None \<Rightarrow> (case etsEntry of Some e \<Rightarrow> date e
                    | None \<Rightarrow> (case industryEntry of Some i \<Rightarrow> date i | None \<Rightarrow> 0)))
               p)
             \<lparr>importQuantity_tons := orNull (optField importEntry totalQuantity_tons),
              importValue_eur := orNull (optField importEntry totalValue_eur),
              importUnitValue := orNull (optField importEntry unit_value),
              etsPrice := orNull (optField etsEntry price),
              industryIndex := orNull (optField industryEntry index)\<rparr>])"

text \<open>The array \<open>merged\<close> after the \<open>forEach\<close>, and the function.\<close>

definition mergedRows ::
  "importTotal list \<Rightarrow> etsEntry list \<Rightarrow> industryEntry list \<Rightarrow> row list" where
  "mergedRows totals etsData industryData =
     (let allPeriods = remdups (map yearMonth totals @ map yearMonth etsData
                                  @ map yearMonth industryData)
      in concat (map (mergeRow totals etsData industryData) (sort allPeriods)))"

definition mergeDatasets ::
  "importTotal list \<Rightarrow> etsEntry list \<Rightarrow> industryEntry list \<Rightarrow> row list" where
  "mergeDatasets totals etsData industryData =
     sort_key date (mergedRows totals etsData industryData)"

text \<open>
  What a panel field holds for a series, given the entry \<open>Array.find\<close> returns for
  the period. As the specification words it (\<open>specPanelValue\<close>): the value of the
  entry, zero included, and \<open>null\<close> when the series has no entry. As the source
  computes it (\<open>panelValue\<close>): a value that is 0 or NaN is recorded as \<open>null\<close> too.
\<close>

definition specPanelValue :: "'a option \<Rightarrow> ('a \<Rightarrow> jsval) \<Rightarrow> jsval" where
  "specPanelValue entry key = (case entry of None \<Rightarrow> Null | Some e \<Rightarrow> key e)"

definition panelValue :: "'a option \<Rightarrow> ('a \<Rightarrow> jsval) \<Rightarrow> jsval" where
  "panelValue entry key =
     (case entry of None \<Rightarrow> Null | Some e \<Rightarrow> if truthy (key e) then key e else Null)"

text \<open>
  \<open>calculateDerivedIndicators(mergedData)\<close>. \<open>growth key prev entry\<close> is
  \<open>prev && prev.key && entry.key ? ((entry.key - prev.key) / prev.key) * 100 : null\<close>.
\<close>

definition growth :: "(row \<Rightarrow> jsval) \<Rightarrow> row option \<Rightarrow> row \<Rightarrow> jsval" where
  "growth key prev entry =
     (case prev of
        None \<Rightarrow> Null
      | Some p \<Rightarrow>
          if truthy (key p) \<and> truthy (key entry)
          then Number (jmul (jdiv (jsub (toNumber (key entry)) (toNumber (key p)))
                               (toNumber (key p))) (Fin 100))
          else Null)"

text \<open>
  The growth rate as the specification words it, for the row index \<open>t\<close> and the
  lookback \<open>lag\<close> (1, or 12 for year over year): \<open>null\<close> when \<open>v(t)\<close> or \<open>v(t - lag)\<close>
  is missing (no such row, or \<open>null\<close>) or \<open>v(t - lag)\<close> is 0, and otherwise
  \<open>(v(t) - v(t - lag)) / v(t - lag) * 100\<close>.
\<close>

definition specGrowth :: "(row \<Rightarrow> jsval) \<Rightarrow> row list \<Rightarrow> nat \<Rightarrow> nat \<Rightarrow> jsval" where
  "specGrowth key panel lag t =
     (if t < lag \<or> key (panel ! t) = Null \<or> key (panel ! (t - lag)) = Null
         \<or> key (panel ! (t - lag)) = Number (Fin 0)
      then Null
      else Number (jmul (jdiv (jsub (toNumber (key (panel ! t))) (toNumber (key (panel ! (t - lag)))))
                           (toNumber (key (panel ! (t - lag))))) (Fin 100)))"

text \<open>The average of the non-null values of \<open>key\<close> in a window, \<open>null\<close> if there is none.\<close>

definition movingAverage :: "(row \<Rightarrow> jsval) \<Rightarrow> row list \<Rightarrow> jsval" where
  "movingAverage key window =
     (let present = filter (\<lambda>d. key d \<noteq> Null) window in
      if 0 < length present
      then Number (jdiv (foldl (\<lambda>sum d. jadd sum (toNumber (key d))) (Fin 0) present)
                     (Fin (of_nat (length present))))
      else Null)"

text \<open>\<open>v && v > 0 ? Math.log(v) : null\<close>\<close>

definition logTransform :: "math \<Rightarrow> jsval \<Rightarrow> jsval" where
  "logTransform M v =
     (if truthy v \<and> jgt (toNumber v) (Fin 0) then Number (Math_log M (toNumber v)) else Null)"

definition deriveEntry :: "math \<Rightarrow> row list \<Rightarrow> nat \<Rightarrow> row" where
  "deriveEntry M mergedData i =
     (let entry = mergedData ! i;
          prev = (if 0 < i then Some (mergedData ! (i - 1)) else None);
          prev12 = (if 12 \<le> i then Some (mergedData ! (i - 12)) else None);
          window3 = drop (i - 2) (take (i + 1) mergedData);
          window12 = drop (i - 11) (take (i + 1) mergedData)
      in entry\<lparr>importGrowth := growth importQuantity_tons prev entry,
               importGrowthYoY := growth importQuantity_tons prev12 entry,
               valueGrowth := growth importValue_eur prev entry,
               etsGrowth := growth etsPrice prev entry,
               etsMA3 := movingAverage etsPrice window3,
               etsMA12 := movingAverage etsPrice window12,
               importMA3 := movingAverage importQuantity_tons window3,
               importMA12 := movingAverage importQuantity_tons window12,
               logImport := logTransform M (importQuantity_tons entry),
               logETS := logTransform M (etsPrice entry),
               logIndustry := logTransform M (industryIndex entry)\<rparr>)"

text \<open>The copy in \<open>dataProcessor\<close>, which the dashboard imports.\<close>

definition calculateDerivedIndicators :: "math \<Rightarrow> row list \<Rightarrow> row list" where
  "calculateDerivedIndicators M mergedData =
     map (deriveEntry M mergedData) [0..<length mergedData]"

text \<open>
  The calendar of the host: \<open>getFullYear\<close> of a \<open>Date\<close>, and the time value of
  \<open>new Date(year, 0, 1)\<close>.
\<close>

record calendar =
  getFullYear :: "int \<Rightarrow> int"
  newYearsDay :: "int \<Rightarrow> int"

text \<open>
  Closed instances of theorems that hold for every calendar take \<open>monthCalendar\<close>,
  whose time values count months from January 1970.
\<close>

definition monthCalendar :: calendar where
  "monthCalendar = \<lparr>getFullYear = (\<lambda>t. 1970 + t div 12), newYearsDay = (\<lambda>y. (y - 1970) * 12)\<rparr>"

text \<open>\<open>new Date(d.date).getFullYear()\<close>\<close>

definition rowYear :: "calendar \<Rightarrow> row \<Rightarrow> int" where
  "rowYear cal d = getFullYear cal (date d)"

text \<open>\<open>d.cbamDummy !== undefined ? d.cbamDummy : 0\<close>\<close>

definition dummyOf :: "row \<Rightarrow> jsval" where
  "dummyOf d = (if cbamDummy d \<noteq> Undefined then cbamDummy d else Number (Fin 0))"

text \<open>
  The copy in the preprocessing script, which also sets the intervention dummy:
  1 for the years 2023 to 2025, 0 otherwise.
\<close>

definition calculateDerivedIndicatorsScript :: "calendar \<Rightarrow> math \<Rightarrow> row list \<Rightarrow> row list" where
  "calculateDerivedIndicatorsScript cal M mergedData =
     map (\<lambda>i. (deriveEntry M mergedData i)
            \<lparr>cbamDummy :=
               (let y = rowYear cal (mergedData ! i) in
                if 2023 \<le> y \<and> y \<le> 2025 then Number (Fin 1) else Number (Fin 0))\<rparr>)
       [0..<length mergedData]"

text \<open>
  The inputs the parsers produce hold, in each entry, a \<open>yearMonth\<close> that is the
  month of its \<open>date\<close> (four-digit year, two-digit month). \<open>chronological\<close> states
  what the merge needs of that: over the entries of the three series, a smaller
  period key comes with an earlier date.
\<close>

definition periodKeys ::
  "importTotal list \<Rightarrow> etsEntry list \<Rightarrow> industryEntry list \<Rightarrow> (string \<times> int) list" where
  "periodKeys totals etsData industryData =
     map (\<lambda>i. (yearMonth i, date i)) totals @ map (\<lambda>e. (yearMonth e, date e)) etsData
       @ map (\<lambda>i. (yearMonth i, date i)) industryData"


section \<open>Annual aggregation and overlap (dataValidation)\<close>

definition allPresent :: "row \<Rightarrow> bool" where
  "allPresent d =
     (importQuantity_tons d \<noteq> Null \<and> etsPrice d \<noteq> Null \<and> industryIndex d \<noteq> Null
      \<and> logImport d \<noteq> Null \<and> logETS d \<noteq> Null \<and> logIndustry d \<noteq> Null)"

text \<open>The keys \<open>start\<close>, \<open>end\<close>, \<open>count\<close> and \<open>periods\<close> of the overlap object.\<close>

record overlapInfo =
  startDate :: int
  endDate :: int
  count :: nat
  periods :: "row list"

definition detectOverlappingPeriod :: "row list \<Rightarrow> overlapInfo option" where
  "detectOverlappingPeriod mergedData =
     (if mergedData = [] then None
      else
        let validPeriods = filter allPresent mergedData in
        if length validPeriods = 0 then None
        else
          let dates = map date validPeriods in
          Some \<lparr>startDate = Min (set dates), endDate = Max (set dates),
                 count = length validPeriods, periods = validPeriods\<rparr>)"

text \<open>
  \<open>aggregateToAnnual(mergedData)\<close>. \<open>annualMap\<close> is an association list in insertion
  order; an \<open>annualAcc\<close> is the object it holds for a year, with the arrays of
  values pushed so far.
\<close>

record annualAcc =
  accYear :: int
  accDate :: int
  accImportQuantity_tons :: "jsval list"
  accImportValue_eur :: "jsval list"
  accEtsPrice :: "jsval list"
  accIndustryIndex :: "jsval list"
  accCbamDummy :: jsval

text \<open>\<open>if (v !== null) array.push(v)\<close>\<close>

definition pushPresent :: "jsval list \<Rightarrow> jsval \<Rightarrow> jsval list" where
  "pushPresent array v = (if v \<noteq> Null then array @ [v] else array)"

definition annualStep :: "calendar \<Rightarrow> (int \<times> annualAcc) list \<Rightarrow> row \<Rightarrow> (int \<times> annualAcc) list" where
  "annualStep cal annualMap entry =
     (let y = rowYear cal entry;
          withYear =
            (if map_of annualMap y = None
             then annualMap @
                    [(y, \<lparr>accYear = y, accDate = newYearsDay cal y,
                          accImportQuantity_tons = [], accImportValue_eur = [],
                          accEtsPrice = [], accIndustryIndex = [],
                          accCbamDummy = dummyOf entry\<rparr>)]
             else annualMap)
      in map (\<lambda>(k, annual).
                if k = y
                then (k, annual\<lparr>
                       accImportQuantity_tons :=
                         pushPresent (accImportQuantity_tons annual) (importQuantity_tons entry),
                       accImportValue_eur :=
                         pushPresent (accImportValue_eur annual) (importValue_eur entry),
                       accEtsPrice := pushPresent (accEtsPrice annual) (etsPrice entry),
                       accIndustryIndex :=
                         pushPresent (accIndustryIndex annual) (industryIndex entry)\<rparr>)
                else (k, annual))
           withYear)"

text \<open>\<open>t > 0 ? v : null\<close>\<close>

definition ifPositive :: "jsnum \<Rightarrow> jsnum \<Rightarrow> jsval" where
  "ifPositive t v = (if jgt t (Fin 0) then Number v else Null)"

text \<open>\<open>xs.length > 0 ? xs.reduce((sum, val) => sum + val, 0) / xs.length : null\<close>\<close>

definition average :: "jsval list \<Rightarrow> jsval" where
  "average xs = (if 0 < length xs then Number (jdiv (sumJs xs) (Fin (of_nat (length xs)))) else Null)"

definition annualRow :: "math \<Rightarrow> annualAcc \<Rightarrow> row" where
  "annualRow M annual =
     (let totalImports = sumJs (accImportQuantity_tons annual);
          totalValue = sumJs (accImportValue_eur annual);
          avgETS = average (accEtsPrice annual);
          avgIndustry = average (accIndustryIndex annual)
      in (newRow (accDate annual) (showInt (accYear annual) @ ''-01''))
           \<lparr>importQuantity_tons := ifPositive totalImports totalImports,
            importValue_eur := ifPositive totalValue totalValue,
            importUnitValue := ifPositive totalImports (jdiv totalValue totalImports),
            etsPrice := avgETS,
            industryIndex := avgIndustry,
            logImport := ifPositive totalImports (Math_log M totalImports),
            logETS := ifPositive (toNumber avgETS) (Math_log M (toNumber avgETS)),
            logIndustry := ifPositive (toNumber avgIndustry) (Math_log M (toNumber avgIndustry)),
            cbamDummy := accCbamDummy annual,
            year := Number (Fin (of_int (accYear annual))),
            rowFrequency := Some ''annual''\<rparr>)"

definition aggregateToAnnual :: "calendar \<Rightarrow> math \<Rightarrow> row list \<Rightarrow> row list" where
  "aggregateToAnnual cal M mergedData =
     (if mergedData = [] then []
      else sort_key date (map (\<lambda>(k, annual). annualRow M annual)
                            (foldl (annualStep cal) [] mergedData)))"

text \<open>
  The monthly values of a variable in a year: the values of \<open>key\<close>, other than
  \<open>null\<close>, in the rows of year \<open>y\<close>, in the order of the rows. \<open>annualGroup\<close> is
  the object that \<open>annualMap\<close> holds for the year after the loop over \<open>rows\<close>.
\<close>

definition yearValues :: "calendar \<Rightarrow> int \<Rightarrow> (row \<Rightarrow> jsval) \<Rightarrow> row list \<Rightarrow> jsval list" where
  "yearValues cal y key rows =
     filter (\<lambda>v. v \<noteq> Null) (map key (filter (\<lambda>d. rowYear cal d = y) rows))"

definition annualGroup :: "calendar \<Rightarrow> row list \<Rightarrow> int \<Rightarrow> annualAcc" where
  "annualGroup cal rows y =
     \<lparr>accYear = y, accDate = newYearsDay cal y,
      accImportQuantity_tons = yearValues cal y importQuantity_tons rows,
      accImportValue_eur = yearValues cal y importValue_eur rows,
      accEtsPrice = yearValues cal y etsPrice rows,
      accIndustryIndex = yearValues cal y industryIndex rows,
      accCbamDummy = (case find (\<lambda>d. rowYear cal d = y) rows of
                        Some d \<Rightarrow> dummyOf d | None \<Rightarrow> Number (Fin 0))\<rparr>"

section \<open>Intervention window: feasibility, interaction model, descriptive comparison\<close>

record cbamVerdict = verdict +
  preCBAM :: nat
  postCBAM :: nat

definition isPreCBAM :: "calendar \<Rightarrow> row \<Rightarrow> bool" where
  "isPreCBAM cal d = (rowYear cal d < 2023)"

definition isPostCBAM :: "calendar \<Rightarrow> row \<Rightarrow> bool" where
  "isPostCBAM cal d = (2023 \<le> rowYear cal d \<and> rowYear cal d \<le> 2025)"

definition checkCBAMFeasibility :: "calendar \<Rightarrow> row list \<Rightarrow> cbamVerdict" where
  "checkCBAMFeasibility cal data =
     (if data = [] then
        \<lparr>feasible = False, reason = Some ''No data available'', preCBAM = 0, postCBAM = 0\<rparr>
      else
        let pre = length (filter (isPreCBAM cal) data);
            post = length (filter (isPostCBAM cal) data);
            ok = (10 \<le> pre \<and> 5 \<le> post)
        in \<lparr>feasible = ok,
            reason = Some (if ok
               then ''Sufficient observations: '' @ showNat pre @ '' pre-CBAM, ''
                      @ showNat post @ '' post-CBAM''
               else ''Insufficient post-CBAM observations ('' @ showNat post
                      @ '' < 5 required). Pre-CBAM: '' @ showNat pre),
            preCBAM = pre, postCBAM = post\<rparr>)"

text \<open>
  \<open>alignDataWithCBAM(data, includeInteraction)\<close>: the rows with \<open>logImport\<close>,
  \<open>etsPrice\<close> and \<open>logIndustry\<close> present and \<open>etsPrice > 0\<close>, as the four arrays
  \<open>y\<close>, \<open>x1\<close>, \<open>x2\<close>, \<open>x3\<close>.
\<close>

definition alignable :: "row \<Rightarrow> bool" where
  "alignable d =
     (validValue (logImport d) \<and> validValue (etsPrice d) \<and> jgt (toNumber (etsPrice d)) (Fin 0)
      \<and> validValue (logIndustry d))"

definition alignDataWithCBAM ::
  "row list \<Rightarrow> bool \<Rightarrow> jsval list \<times> jsval list \<times> jsval list \<times> jsval list" where
  "alignDataWithCBAM data includeInteraction =
     (let kept = filter alignable data in
      (map logImport kept,
       map etsPrice kept,
       (if includeInteraction
        then map (\<lambda>d. Number (jmul (toNumber (etsPrice d)) (toNumber (dummyOf d)))) kept
        else map logIndustry kept),
       (if includeInteraction then map logIndustry kept else map dummyOf kept)))"

text \<open>
  The result of \<open>estimateCBAMInteractionModel\<close>: the verdict keys, the key \<open>n\<close>
  (\<open>nUsed\<close>, absent from the first infeasible result), and the keys of a fitted
  model, grouped in \<open>estimate\<close>.
\<close>

record interactionEstimate =
  model :: string
  modelFrequency :: string
  interceptCoeff :: jsnum
  carbonPriceCoeff :: jsnum
  carbonPriceSE :: jsnum
  carbonPriceTStat :: jsnum
  carbonPricePValue :: jsnum
  cbamInteractionCoeff :: jsnum
  cbamInteractionSE :: jsnum
  cbamInteractionTStat :: jsnum
  cbamInteractionPValue :: jsnum
  activityCoeff :: jsnum
  activitySE :: jsnum
  activityTStat :: jsnum
  activityPValue :: jsnum
  modelRSquared :: jsnum

record interactionResult = cbamVerdict +
  nUsed :: "nat option"
  estimate :: "interactionEstimate option"

text \<open>The character \<open>\<ge>\<close> of the reason, in UTF-8.\<close>

definition geSign :: string where
  "geSign = [char_of (226::nat), char_of (137::nat), char_of (165::nat)]"

definition estimateCBAMInteractionModel ::
  "calendar \<Rightarrow> math \<Rightarrow> row list \<Rightarrow> string \<Rightarrow> error + interactionResult" where
  "estimateCBAMInteractionModel cal M mergedData frequency =
     (let pre = length (filter (isPreCBAM cal) mergedData);
          post = length (filter (isPostCBAM cal) mergedData)
      in if pre < 10 \<or> post < 5 then
           Inr \<lparr>feasible = False,
                reason = Some (''Insufficient CBAM period coverage: '' @ showNat pre
                   @ '' pre-CBAM observations ('' @ geSign @ ''10 required), '' @ showNat post
                   @ '' post-CBAM observations ('' @ geSign @ ''5 required)''),
                preCBAM = pre, postCBAM = post, nUsed = None, estimate = None\<rparr>
         else
           (case alignDataWithCBAM mergedData True of
              (y, x1, x2, x3) \<Rightarrow>
                if length y < 20 then
                  Inr \<lparr>feasible = False,
                       reason = Some (''Insufficient observations (N='' @ showNat (length y)
                          @ '' < 20 required for OLS)''),
                       preCBAM = pre, postCBAM = post,
                       nUsed = Some (length y), estimate = None\<rparr>
                else
                  (case multipleOLS M y [x1, x2, x3] of
                     Inl e \<Rightarrow> Inl e
                   | Inr None \<Rightarrow>
                       Inr \<lparr>feasible = False, reason = Some ''Regression estimation failed'',
                            preCBAM = pre, postCBAM = post,
                            nUsed = Some (length y), estimate = None\<rparr>
                   | Inr (Some result) \<Rightarrow>
                       Inr \<lparr>feasible = True, reason = None,
                            preCBAM = pre, postCBAM = post,
                            nUsed = Some (nObs result),
                            estimate = Some
                              \<lparr>model = ''CBAM Interaction'',
                               modelFrequency = frequency,
                               interceptCoeff = idx (coefficients result) 0,
                               carbonPriceCoeff = idx (coefficients result) 1,
                               carbonPriceSE = idx (standardErrors result) 1,
                               carbonPriceTStat = idx (tStats result) 1,
                               carbonPricePValue = idx (pValues result) 1,
                               cbamInteractionCoeff = idx (coefficients result) 2,
                               cbamInteractionSE = idx (standardErrors result) 2,
                               cbamInteractionTStat = idx (tStats result) 2,
                               cbamInteractionPValue = idx (pValues result) 2,
                               activityCoeff = idx (coefficients result) 3,
                               activitySE = idx (standardErrors result) 3,
                               activityTStat = idx (tStats result) 3,
                               activityPValue = idx (pValues result) 3,
                               modelRSquared = rSquared result\<rparr>\<rparr>)))"

text \<open>
  \<open>calculateCBAMDescriptive(data)\<close>; \<open>None\<close> is the \<open>null\<close> it returns. The record
  keeps the count and the two means of each period and the two percent changes;
  the medians of the source, which no statement below reads, are left out.
\<close>

record periodStats =
  nPeriod :: nat
  avgImports :: jsnum
  avgPrice :: jsnum

record descriptive =
  preStats :: periodStats
  postStats :: periodStats
  importChange :: jsnum
  priceChange :: jsnum

definition calcStats :: "row list \<Rightarrow> periodStats" where
  "calcStats period =
     (let imports = filter (\<lambda>v. v \<noteq> Null) (map importQuantity_tons period);
          prices = filter (\<lambda>v. v \<noteq> Null) (map etsPrice period)
      in \<lparr>nPeriod = length period,
          avgImports = jdiv (sumJs imports) (Fin (of_nat (length imports))),
          avgPrice = jdiv (sumJs prices) (Fin (of_nat (length prices)))\<rparr>)"

text \<open>The rows of a period that have both the import quantity and the carbon price.\<close>

definition preObserved :: "calendar \<Rightarrow> row list \<Rightarrow> row list" where
  "preObserved cal data =
     filter (\<lambda>d. isPreCBAM cal d \<and> importQuantity_tons d \<noteq> Null \<and> etsPrice d \<noteq> Null) data"

definition postObserved :: "calendar \<Rightarrow> row list \<Rightarrow> row list" where
  "postObserved cal data =
     filter (\<lambda>d. isPostCBAM cal d \<and> importQuantity_tons d \<noteq> Null \<and> etsPrice d \<noteq> Null) data"

definition calculateCBAMDescriptive :: "calendar \<Rightarrow> row list \<Rightarrow> descriptive option" where
  "calculateCBAMDescriptive cal data =
     (if data = [] then None
      else
        let pre = preObserved cal data;
            post = postObserved cal data
        in if length pre = 0 \<or> length post = 0 then None
           else
             let preS = calcStats pre; postS = calcStats post in
             Some \<lparr>preStats = preS, postStats = postS,
                    importChange = jmul (jdiv (jsub (avgImports postS) (avgImports preS))
                                           (avgImports preS)) (Fin 100),
                    priceChange = jmul (jdiv (jsub (avgPrice postS) (avgPrice preS))
                                          (avgPrice preS)) (Fin 100)\<rparr>)"

section \<open>Frequency selection (dataValidation, \<open>prepareDataset\<close>)\<close>

record prepared =
  data :: "row list"
  frequency :: string
  overlap :: "overlapInfo option"
  message :: string

definition prepareDataset :: "calendar \<Rightarrow> math \<Rightarrow> row list \<Rightarrow> prepared" where
  "prepareDataset cal M mergedData =
     (case detectOverlappingPeriod mergedData of
        None \<Rightarrow>
          \<lparr>data = [], frequency = ''none'', overlap = None,
           message = ''No overlapping observations found across all required variables.''\<rparr>
      | Some found \<Rightarrow>
          if count found = 0 then
            \<lparr>data = [], frequency = ''none'', overlap = None,
             message = ''No overlapping observations found across all required variables.''\<rparr>
          else if count found < 20 then
            (let annualData = aggregateToAnnual cal M (periods found) in
             \<lparr>data = annualData, frequency = ''annual'',
              overlap = detectOverlappingPeriod annualData,
              message = ''Monthly data insufficient ('' @ showNat (count found)
                 @ '' observations). Aggregated to annual frequency (''
                 @ showNat (length annualData) @ '' observations).''\<rparr>)
          else
            \<lparr>data = periods found, frequency = ''monthly'', overlap = Some found,
             message = ''Using monthly frequency with '' @ showNat (count found)
                @ '' overlapping observations.''\<rparr>)"

section \<open>Evaluating binary64 arithmetic\<close>

lemma bitlen_0 [simp]: "bitlen 0 = 0"
  by (simp add: bitlen.simps)

lemma bitlen_1 [simp]: "bitlen 1 = 1" "bitlen (Suc 0) = 1"
  by (simp_all add: bitlen.simps)

lemma bitlen_Bit0 [simp]: "bitlen (numeral (Num.Bit0 k)) = Suc (bitlen (numeral k))"
  by (subst bitlen.simps) simp

lemma bitlen_Bit1 [simp]: "bitlen (numeral (Num.Bit1 k)) = Suc (bitlen (numeral k))"
  by (subst bitlen.simps) simp

lemma floor_numeral_div [simp]:
  "\<lfloor>numeral a / numeral b :: rat\<rfloor> = numeral a div numeral b"
  using floor_divide_of_int_eq [of "numeral a" "numeral b", where ?'a = rat] by simp

lemma ceiling_numeral_div [simp]:
  "\<lceil>numeral a / numeral b :: rat\<rceil> = - ((- numeral a) div numeral b)"
  using floor_divide_of_int_eq [of "- numeral a" "numeral b", where ?'a = rat]
  by (simp add: ceiling_def)

lemmas round64_eval =
  round64_def roundAt_def pack64_def exponent_def scale2_def roundHalfEven_def Let_def

section \<open>Ordinary least squares\<close>

lemmas linalg_eval = transposeM_def matrixMultiply_def matrixVectorMultiply_def
  solveLinearSystem_def forwardStep_def findPivot_def swapRows_def eliminateRow_def
  backStep_def calculateStandardErrors_def idx_def idxv_def jsub_def jgt_def pow2_def

lemma solveLinearSystem_Some: "solveLinearSystem A b \<noteq> None"
  by (simp add: solveLinearSystem_def Let_def)

text \<open>
  C1. The claim: when a pivot is zero, \<open>solveLinearSystem\<close> returns a failure value
  and \<open>multipleOLS\<close> turns it into \<open>null\<close>, never into NaN coefficients. The
  source has the check \<open>if (!coefficients) return null\<close> in \<open>multipleOLS\<close>, and no
  failure return in \<open>solveLinearSystem\<close>: on \<open>y = [1, 2, 3]\<close> with the constant
  regressor \<open>[1, 1, 1]\<close> the normal equations are \<open>[[3, 3], [3, 3]] \<beta> = [6, 6]\<close>,
  the second pivot is 0, and the result is not \<open>null\<close>: its coefficients are NaN.
\<close>

theorem multipleOLS_collinear_NaN:
  "solveLinearSystem [[Fin 3, Fin 3], [Fin 3, Fin 3]] [Fin 6, Fin 6] = Some [NaN, NaN]
   \<and> map_sum id (map_option coefficients)
         (multipleOLS nanMath [Number (Fin 1), Number (Fin 2), Number (Fin 3)]
            [[Number (Fin 1), Number (Fin 1), Number (Fin 1)]])
       = Inr (Some [NaN, NaN])"
  by code_simp

text \<open>Roundings on the way to the slope of \<open>x = [0.1, 0.1, 0.1]\<close>, \<open>y = [1, 2, 4]\<close>.\<close>

lemma round64_tenth_1:
  "round64 (- (1 / 9007199254740992)) = Fin (- (1 / 9007199254740992))"
  "round64 (- (1 / 288230376151711744)) = Fin (- (1 / 288230376151711744))"
  "round64 (12980742146337070512478121581609 / 1298074214633706907132624082305024) = Fin (1441151880758559 / 144115188075855872)"
  "round64 (1441151880758559 / 144115188075855872) = Fin (1441151880758559 / 144115188075855872)"
  "round64 (1441151880758559 / 72057594037927936) = Fin (1441151880758559 / 72057594037927936)"
  "round64 (4323455642275677 / 144115188075855872) = Fin (4323455642275677 / 144115188075855872)"
  "round64 (9735556609752805136158404871455 / 324518553658426726783156020576256) = Fin (8646911284551355 / 288230376151711744)"
  "round64 (1 / 10) = Fin (3602879701896397 / 36028797018963968)"
  by (simp_all add: round64_eval)

lemma round64_tenth_2:
  "round64 (3602879701896397 / 36028797018963968) = Fin (3602879701896397 / 36028797018963968)"
  "round64 (1351079888211149 / 13510798882111488) = Fin (7205759403792795 / 72057594037927936)"
  "round64 (3602879701896397 / 18014398509481984) = Fin (3602879701896397 / 18014398509481984)"
  "round64 (10808639105689191 / 36028797018963968) = Fin (1351079888211149 / 4503599627370496)"
  "round64 (21617278211378385 / 72057594037927936) = Fin (1351079888211149 / 4503599627370496)"
  "round64 (3602879701896397 / 9007199254740992) = Fin (3602879701896397 / 9007199254740992)"
  "round64 (6305039478318695 / 9007199254740992) = Fin (6305039478318695 / 9007199254740992)"
  "round64 (7098843361278086149581413740271 / 10141204801825835211973625643008) = Fin (788129934789837 / 1125899906842624)"
  by (simp_all add: round64_eval)

lemma round64_tenth_3:
  "round64 (1) = Fin (1)"
  "round64 (7 / 3) = Fin (5254199565265579 / 2251799813685248)"
  "round64 (3) = Fin (3)"
  "round64 (7) = Fin (7)"
  "round64 (32) = Fin (32)"
  by (simp_all add: round64_eval)

lemmas round64_tenth = round64_tenth_1 round64_tenth_2 round64_tenth_3

text \<open>
  C10 as stated: with at least two valid pairs and all \<open>x\<close> equal the slope is NaN.
  With \<open>x = [0.1, 0.1, 0.1]\<close> and \<open>y = [1, 2, 4]\<close> the rounded sums do not cancel:
  the numerator is \<open>-2^-53\<close>, the denominator \<open>-2^-58\<close>, and the slope is 32.
\<close>

theorem simpleOLS_equal_x_slope_counterexample:
  "length (validPairs [Number (Fin 1), Number (Fin 2), Number (Fin 4)]
      [Number (round64 (1 / 10)), Number (round64 (1 / 10)), Number (round64 (1 / 10))]) = 3
   \<and> map_option slope
        (simpleOLS nanMath [Number (Fin 1), Number (Fin 2), Number (Fin 4)]
           [Number (round64 (1 / 10)), Number (round64 (1 / 10)), Number (round64 (1 / 10))])
       = Some (Fin 32)"
  apply (simp only: simpleOLS_def Let_def)
  apply (simp add: validPairs_def validValue_def isNaN_def jsub_def jgt_def pow2_def
      round64_tenth)
  done

text \<open>
  C10, amended. For every input with at least two valid pairs, whatever the
  variance of \<open>x\<close>, \<open>simpleOLS\<close> does not return \<open>null\<close>: the division computing the
  slope is unguarded, and the result object counts the valid pairs. (Its slope is
  NaN where numerator and denominator are both computed as 0, as for
  \<open>x = [1, 1]\<close>, \<open>y = [1, 2]\<close> in the witness.)
\<close>

theorem simpleOLS_unguarded:
  "2 \<le> length (validPairs y x) \<Longrightarrow>
     \<exists>r. simpleOLS M y x = Some r \<and> nObs r = length (validPairs y x)"
  by (simp add: simpleOLS_def Let_def)

theorem simpleOLS_unguarded_witness:
  "2 \<le> length (validPairs [Number (Fin 1), Number (Fin 2)] [Number (Fin 1), Number (Fin 1)])
   \<and> (\<exists>r. simpleOLS nanMath [Number (Fin 1), Number (Fin 2)] [Number (Fin 1), Number (Fin 1)]
           = Some r \<and> nObs r = 2)
   \<and> map_option slope
        (simpleOLS nanMath [Number (Fin 1), Number (Fin 2)] [Number (Fin 1), Number (Fin 1)])
       = Some NaN"
proof -
  have two: "length (validPairs [Number (Fin 1), Number (Fin 2)]
      [Number (Fin 1), Number (Fin 1)]) = 2"
    by (simp add: validPairs_def validValue_def isNaN_def)
  have nan: "map_option slope
      (simpleOLS nanMath [Number (Fin 1), Number (Fin 2)] [Number (Fin 1), Number (Fin 1)])
     = Some NaN"
    apply (simp only: simpleOLS_def Let_def)
    apply (simp add: validPairs_def validValue_def isNaN_def jsub_def jgt_def pow2_def
        round64_eval)
    done
  from two simpleOLS_unguarded [of "[Number (Fin 1), Number (Fin 2)]"
      "[Number (Fin 1), Number (Fin 1)]" nanMath] nan
  show ?thesis by simp
qed

section \<open>The lag-length gate\<close>

lemma largestLag_greatest:
  "10 + (largestLag n + 1) + 1 \<le> n \<and> (\<forall>k. 10 + (k + 1) + 1 \<le> n \<longrightarrow> k \<le> largestLag n)"
  by (simp add: largestLag_def)

lemma lagLoop_value:
  "1 \<le> k \<Longrightarrow> k \<le> 13 \<Longrightarrow> k - 1 \<le> m \<Longrightarrow> m \<le> 12 \<Longrightarrow> m = k - 1 \<Longrightarrow> 11 + k \<le> n
     \<Longrightarrow> lagLoop n k m = min (n - 12) 12"
proof (induction n k m rule: lagLoop.induct)
  case (1 n k m)
  show ?case
  proof (cases "k \<le> 12")
    case False
    with "1.prems" have "k = 13" by simp
    with "1.prems" show ?thesis by (simp add: lagLoop.simps)
  next
    case le: True
    show ?thesis
    proof (cases "10 + (k + 1) + 1 \<le> n")
      case False
      with le "1.prems" show ?thesis by (simp add: lagLoop.simps)
    next
      case True
      with le have "lagLoop n k m = lagLoop n (k + 1) k"
        by (simp add: lagLoop.simps [of n k m])
      also have "\<dots> = min (n - 12) 12"
        using le True "1.prems" by (intro "1.IH") simp_all
      finally show ?thesis .
    qed
  qed
qed

lemma lagLoop_from_one: "13 \<le> n \<Longrightarrow> lagLoop n 1 0 = min (n - 12) 12"
  by (rule lagLoop_value) simp_all

text \<open>
  C2. For every sample size \<open>n\<close>, \<open>determineFeasibleLagLength(n, 'monthly')\<close> has
  \<open>feasible = false\<close> when \<open>n < 20\<close> and \<open>feasible = true\<close> when \<open>n \<ge> 20\<close>; the
  boundary is exactly \<open>n = 20\<close>.
\<close>

theorem feasible_monthly_iff:
  "feasible (determineFeasibleLagLength n ''monthly'' 3) \<longleftrightarrow> 20 \<le> n"
  by (simp add: determineFeasibleLagLength_def Let_def lagLoop_from_one)

theorem feasible_monthly_boundary_witness:
  "\<not> feasible (determineFeasibleLagLength 19 ''monthly'' 3)
   \<and> feasible (determineFeasibleLagLength 20 ''monthly'' 3)"
  using feasible_monthly_iff [of 19] feasible_monthly_iff [of 20] by simp

text \<open>
  C3 as stated: at monthly frequency and \<open>n \<ge> 20\<close> the reported lag is the largest
  \<open>k\<close> with \<open>n \<ge> 10 + (k + 1) + 1\<close>, capped to 3 below 50 and to 6 below 100
  observations, with no other cap. At \<open>n = 100\<close> that lag is 88, and the source
  reports 12.
\<close>

theorem maxLag_no_other_cap_counterexample:
  "maxLag (determineFeasibleLagLength 100 ''monthly'' 3) = 12
   \<and> specMaxLagMonthly 100 = 88
   \<and> maxLag (determineFeasibleLagLength 100 ''monthly'' 3) \<noteq> specMaxLagMonthly 100"
  by (simp add: determineFeasibleLagLength_def Let_def lagLoop_from_one
      specMaxLagMonthly_def largestLag_def)

text \<open>
  C3, amended. For every \<open>n \<ge> 20\<close> at monthly frequency the reported lag is the
  largest \<open>k \<le> 12\<close> with \<open>n \<ge> 10 + (k + 1) + 1\<close> (the search stops at 12),
  capped to 3 when \<open>n < 50\<close> and to 6 when \<open>n < 100\<close>; at annual frequency the lag
  is 1 from 20 observations on and 0 below, so never above 1; and when even
  \<open>k = 1\<close> is infeasible (\<open>n < 13\<close>) the reported lag is 0 at any frequency.
\<close>

theorem maxLag_searched_and_capped:
  "(20 \<le> n \<longrightarrow>
      maxLag (determineFeasibleLagLength n ''monthly'' 3) = searchedMaxLagMonthly n)
   \<and> maxLag (determineFeasibleLagLength n ''annual'' 3) = (if 20 \<le> n then 1 else 0)
   \<and> (n < 10 + (1 + 1) + 1 \<longrightarrow> maxLag (determineFeasibleLagLength n freq 3) = 0)"
  by (simp add: determineFeasibleLagLength_def Let_def lagLoop_from_one
      searchedMaxLagMonthly_def largestLag_def)

theorem maxLag_searched_and_capped_witness:
  "maxLag (determineFeasibleLagLength 100 ''monthly'' 3) = 12
   \<and> maxLag (determineFeasibleLagLength 60 ''monthly'' 3) = 6
   \<and> maxLag (determineFeasibleLagLength 20 ''monthly'' 3) = 3
   \<and> maxLag (determineFeasibleLagLength 25 ''annual'' 3) = 1
   \<and> maxLag (determineFeasibleLagLength 12 ''monthly'' 3) = 0"
  using maxLag_searched_and_capped [of 100 "''monthly''"]
    maxLag_searched_and_capped [of 60 "''monthly''"]
    maxLag_searched_and_capped [of 20 "''monthly''"]
    maxLag_searched_and_capped [of 25 "''monthly''"]
    maxLag_searched_and_capped [of 12 "''monthly''"]
  by (simp add: searchedMaxLagMonthly_def largestLag_def)

section \<open>The merged panel\<close>

lemma mergeRow_single:
  assumes "p \<in> fst ` set (periodKeys T E I)"
  shows "\<exists>r. mergeRow T E I p = [r] \<and> yearMonth r = p \<and> (p, date r) \<in> set (periodKeys T E I)"
proof -
  let ?fi = "find (\<lambda>i. yearMonth i = p) T"
  let ?fe = "find (\<lambda>e. yearMonth e = p) E"
  let ?fd = "find (\<lambda>i. yearMonth i = p) I"
  from assms have some: "?fi \<noteq> None \<or> ?fe \<noteq> None \<or> ?fd \<noteq> None"
    by (auto simp: periodKeys_def find_None_iff)
  have di: "\<And>e. ?fi = Some e \<Longrightarrow> (p, date e) \<in> set (periodKeys T E I)"
    by (auto simp: find_Some_iff periodKeys_def image_iff)
  have de: "\<And>e. ?fe = Some e \<Longrightarrow> (p, date e) \<in> set (periodKeys T E I)"
    by (auto simp: find_Some_iff periodKeys_def image_iff)
  have dd: "\<And>e. ?fd = Some e \<Longrightarrow> (p, date e) \<in> set (periodKeys T E I)"
    by (auto simp: find_Some_iff periodKeys_def image_iff)
  from some di de dd show ?thesis
    by (auto simp: mergeRow_def newRow_def Let_def split: option.splits)
qed

lemma mergeRow_outside:
  "p \<notin> fst ` set (periodKeys T E I) \<Longrightarrow> mergeRow T E I p = []"
  by (force simp: mergeRow_def Let_def periodKeys_def find_None_iff image_iff)


lemma mergeDatasets_sort: "mergeDatasets T E I = sort_key date (mergedRows T E I)"
  by (simp add: mergeDatasets_def)

lemma allPeriods_keys:
  "fst ` set (periodKeys T E I) = set (map yearMonth T @ map yearMonth E @ map yearMonth I)"
  by (simp add: periodKeys_def image_Un image_image)



lemma mergedRows_row:
  assumes "r \<in> set (mergedRows T E I)"
  shows "mergeRow T E I (yearMonth r) = [r] \<and> (yearMonth r, date r) \<in> set (periodKeys T E I)"
proof -
  from assms obtain p where
    "p \<in> set (sort (remdups (map yearMonth T @ map yearMonth E @ map yearMonth I)))"
    and r: "r \<in> set (mergeRow T E I p)"
    unfolding mergedRows_def Let_def by auto
  then have p: "p \<in> fst ` set (periodKeys T E I)"
    by (simp only: allPeriods_keys set_sort set_remdups)
  from mergeRow_single [OF p] r show ?thesis by auto
qed













lemma orNull_optField: "orNull (optField entry key) = panelValue entry key"
  by (cases entry) (simp_all add: orNull_def optField_def panelValue_def)

lemma mergeRow_fields:
  assumes "mergeRow T E I p = [r]"
  shows "importQuantity_tons r = panelValue (find (\<lambda>i. yearMonth i = p) T) totalQuantity_tons
       \<and> importValue_eur r = panelValue (find (\<lambda>i. yearMonth i = p) T) totalValue_eur
       \<and> importUnitValue r = panelValue (find (\<lambda>i. yearMonth i = p) T) unit_value
       \<and> etsPrice r = panelValue (find (\<lambda>e. yearMonth e = p) E) price
       \<and> industryIndex r = panelValue (find (\<lambda>i. yearMonth i = p) I) index"
proof -
  from assms obtain d where
    "r = (newRow d p)
       \<lparr>importQuantity_tons := orNull (optField (find (\<lambda>i. yearMonth i = p) T) totalQuantity_tons),
        importValue_eur := orNull (optField (find (\<lambda>i. yearMonth i = p) T) totalValue_eur),
        importUnitValue := orNull (optField (find (\<lambda>i. yearMonth i = p) T) unit_value),
        etsPrice := orNull (optField (find (\<lambda>e. yearMonth e = p) E) price),
        industryIndex := orNull (optField (find (\<lambda>i. yearMonth i = p) I) index)\<rparr>"
    unfolding mergeRow_def Let_def by (metis list.inject not_Cons_self)
  then show ?thesis by (simp add: orNull_optField)
qed

lemma merged_fields:
  assumes "r \<in> set (mergeDatasets T E I)"
  shows "importQuantity_tons r
           = panelValue (find (\<lambda>i. yearMonth i = yearMonth r) T) totalQuantity_tons
       \<and> importValue_eur r
           = panelValue (find (\<lambda>i. yearMonth i = yearMonth r) T) totalValue_eur
       \<and> importUnitValue r
           = panelValue (find (\<lambda>i. yearMonth i = yearMonth r) T) unit_value
       \<and> etsPrice r = panelValue (find (\<lambda>e. yearMonth e = yearMonth r) E) price
       \<and> industryIndex r = panelValue (find (\<lambda>i. yearMonth i = yearMonth r) I) index"
proof -
  from assms have "r \<in> set (mergedRows T E I)"
    by (simp add: mergeDatasets_sort)
  then have "mergeRow T E I (yearMonth r) = [r]"
    using mergedRows_row by blast
  then show ?thesis by (rule mergeRow_fields)
qed

lemma panelValue_cases: "panelValue entry key = Null \<or> truthy (panelValue entry key)"
  by (simp add: panelValue_def split: option.splits)

lemma panelValue_not_zero: "panelValue entry key \<noteq> Number (Fin 0)"
  using panelValue_cases [of entry key] by auto

text \<open>
  C4 as stated: a period for which a series reports the value 0 is recorded in
  the panel as 0. A carbon price of 0 for January 2020 is recorded as \<open>null\<close>.
\<close>

theorem merged_zero_is_null_counterexample:
  "specPanelValue
     (find (\<lambda>e. yearMonth e = ''2020-01'')
        [\<lparr>date = 100, yearMonth = ''2020-01'', price = Number (Fin 0)\<rparr>]) price
     = Number (Fin 0)
   \<and> map etsPrice
        (mergeDatasets [] [\<lparr>date = 100, yearMonth = ''2020-01'', price = Number (Fin 0)\<rparr>] [])
     = [Null]"
  by (simp add: specPanelValue_def mergeDatasets_def mergedRows_def mergeRow_def newRow_def
      Let_def orNull_def optField_def)

text \<open>
  C4, amended. In every row of the merged panel, each of the five source fields
  is \<open>null\<close> when its series has no entry for the period of the row, and otherwise
  the value of the first such entry when that value is truthy, and \<open>null\<close> when it
  is 0 or NaN: a missing observation is never recorded as zero, and a reported
  zero is recorded as missing.
\<close>

theorem merged_missing_never_zero:
  "r \<in> set (mergeDatasets T E I) \<Longrightarrow>
     importQuantity_tons r
       = panelValue (find (\<lambda>i. yearMonth i = yearMonth r) T) totalQuantity_tons
     \<and> importValue_eur r
       = panelValue (find (\<lambda>i. yearMonth i = yearMonth r) T) totalValue_eur
     \<and> importUnitValue r
       = panelValue (find (\<lambda>i. yearMonth i = yearMonth r) T) unit_value
     \<and> etsPrice r = panelValue (find (\<lambda>e. yearMonth e = yearMonth r) E) price
     \<and> industryIndex r = panelValue (find (\<lambda>i. yearMonth i = yearMonth r) I) index
     \<and> importQuantity_tons r \<noteq> Number (Fin 0) \<and> importValue_eur r \<noteq> Number (Fin 0)
     \<and> importUnitValue r \<noteq> Number (Fin 0) \<and> etsPrice r \<noteq> Number (Fin 0)
     \<and> industryIndex r \<noteq> Number (Fin 0)"
  using merged_fields [of r T E I] by (simp add: panelValue_not_zero)

theorem merged_missing_never_zero_witness:
  "mergeDatasets [] [\<lparr>date = 100, yearMonth = ''2020-01'', price = Number (Fin 25)\<rparr>] [] ! 0
     \<in> set (mergeDatasets [] [\<lparr>date = 100, yearMonth = ''2020-01'', price = Number (Fin 25)\<rparr>] [])
   \<and> etsPrice
        (mergeDatasets [] [\<lparr>date = 100, yearMonth = ''2020-01'', price = Number (Fin 25)\<rparr>] [] ! 0)
       = Number (Fin 25)
   \<and> industryIndex
        (mergeDatasets [] [\<lparr>date = 100, yearMonth = ''2020-01'', price = Number (Fin 25)\<rparr>] [] ! 0)
       = Null"
proof -
  let ?E = "[\<lparr>date = 100, yearMonth = ''2020-01'', price = Number (Fin 25)\<rparr>]"
  have m: "mergeDatasets [] ?E [] ! 0 \<in> set (mergeDatasets [] ?E [])"
    by (simp add: mergeDatasets_def mergedRows_def mergeRow_def newRow_def Let_def)
  have y: "yearMonth (mergeDatasets [] ?E [] ! 0) = ''2020-01''"
    by (simp add: mergeDatasets_def mergedRows_def mergeRow_def newRow_def Let_def)
  from merged_missing_never_zero [OF m] m y show ?thesis
    by (simp add: panelValue_def)
qed

section \<open>Growth rates\<close>

lemma merged_values:
  assumes "r \<in> set (mergeDatasets T E I)"
  shows "(importQuantity_tons r = Null \<or> truthy (importQuantity_tons r))
       \<and> (importValue_eur r = Null \<or> truthy (importValue_eur r))
       \<and> (etsPrice r = Null \<or> truthy (etsPrice r))"
  using merged_fields [OF assms] by (simp add: panelValue_cases)

lemma truthy_not_zero: "truthy v \<Longrightarrow> v \<noteq> Null \<and> v \<noteq> Number (Fin 0)"
  by auto

lemma growth_specGrowth:
  assumes "t < length panel"
    and "\<forall>r \<in> set panel. key r = Null \<or> truthy (key r)"
    and "0 < lag"
    and "prev = (if lag \<le> t then Some (panel ! (t - lag)) else None)"
  shows "growth key prev (panel ! t) = specGrowth key panel lag t"
proof (cases "lag \<le> t")
  case False
  with assms(4) show ?thesis by (simp add: growth_def specGrowth_def)
next
  case True
  then have "t - lag < length panel" using assms(1) by simp
  with assms(1,2) have a: "key (panel ! (t - lag)) = Null \<or> truthy (key (panel ! (t - lag)))"
    and b: "key (panel ! t) = Null \<or> truthy (key (panel ! t))"
    by (simp_all add: nth_mem del: truthy.simps)
  from True assms(4) have p: "prev = Some (panel ! (t - lag))" by simp
  from True a b show ?thesis
    using truthy_not_zero [of "key (panel ! t)"] truthy_not_zero [of "key (panel ! (t - lag))"]
    unfolding p growth_def specGrowth_def by (auto simp del: truthy.simps)
qed

lemma deriveEntry_growth:
  "importGrowth (deriveEntry M panel t)
     = growth importQuantity_tons (if 0 < t then Some (panel ! (t - 1)) else None) (panel ! t)
   \<and> importGrowthYoY (deriveEntry M panel t)
     = growth importQuantity_tons (if 12 \<le> t then Some (panel ! (t - 12)) else None) (panel ! t)
   \<and> valueGrowth (deriveEntry M panel t)
     = growth importValue_eur (if 0 < t then Some (panel ! (t - 1)) else None) (panel ! t)
   \<and> etsGrowth (deriveEntry M panel t)
     = growth etsPrice (if 0 < t then Some (panel ! (t - 1)) else None) (panel ! t)"
  by (simp add: deriveEntry_def Let_def)

lemma derived_nth:
  "t < length panel \<Longrightarrow> calculateDerivedIndicators M panel ! t = deriveEntry M panel t"
  by (simp add: calculateDerivedIndicators_def)

lemma derived_script_nth:
  "t < length panel \<Longrightarrow>
     \<exists>v. calculateDerivedIndicatorsScript cal M panel ! t = (deriveEntry M panel t)\<lparr>cbamDummy := v\<rparr>"
  by (simp add: calculateDerivedIndicatorsScript_def) blast

lemma merged_growth:
  assumes "panel = mergeDatasets T E I" "t < length panel"
  shows "importGrowth (deriveEntry M panel t) = specGrowth importQuantity_tons panel 1 t
       \<and> importGrowthYoY (deriveEntry M panel t) = specGrowth importQuantity_tons panel 12 t
       \<and> valueGrowth (deriveEntry M panel t) = specGrowth importValue_eur panel 1 t
       \<and> etsGrowth (deriveEntry M panel t) = specGrowth etsPrice panel 1 t"
proof -
  have q: "\<forall>r \<in> set panel. importQuantity_tons r = Null \<or> truthy (importQuantity_tons r)"
    and v: "\<forall>r \<in> set panel. importValue_eur r = Null \<or> truthy (importValue_eur r)"
    and e: "\<forall>r \<in> set panel. etsPrice r = Null \<or> truthy (etsPrice r)"
    using merged_values assms(1) by blast+
  have p1: "(if 0 < t then Some (panel ! (t - 1)) else None)
      = (if 1 \<le> t then Some (panel ! (t - 1)) else None)"
    by auto
  note g = deriveEntry_growth [of M panel t]
  have "importGrowth (deriveEntry M panel t) = specGrowth importQuantity_tons panel 1 t"
    using g growth_specGrowth [OF assms(2) q _ p1] by simp
  moreover have "importGrowthYoY (deriveEntry M panel t)
      = specGrowth importQuantity_tons panel 12 t"
    using g growth_specGrowth [OF assms(2) q _ refl, of 12] by simp
  moreover have "valueGrowth (deriveEntry M panel t) = specGrowth importValue_eur panel 1 t"
    using g growth_specGrowth [OF assms(2) v _ p1] by simp
  moreover have "etsGrowth (deriveEntry M panel t) = specGrowth etsPrice panel 1 t"
    using g growth_specGrowth [OF assms(2) e _ p1] by simp
  ultimately show ?thesis by blast
qed

text \<open>
  C5. For every merged panel and every row index \<open>t\<close>, the month-over-month growth
  of a variable \<open>v\<close> (import quantity, import value, carbon price) is
  \<open>(v(t) - v(t-1)) / v(t-1) * 100\<close>, and \<open>null\<close> exactly when \<open>v(t)\<close> or \<open>v(t-1)\<close> is
  missing or \<open>v(t-1)\<close> is 0; the year-over-year growth of the import quantity is
  the same with \<open>t - 12\<close>; a variable that is \<open>null\<close> at \<open>t\<close> has \<open>null\<close> growth at
  \<open>t\<close>, so that two consecutive \<open>null\<close> periods have \<open>null\<close> growth in both. Both
  copies of \<open>calculateDerivedIndicators\<close> agree on these fields.
\<close>

theorem growth_of_merged_panel:
  assumes "panel = mergeDatasets T E I" and "t < length panel"
    and "d = calculateDerivedIndicators M panel ! t"
    and "d' = calculateDerivedIndicatorsScript cal M panel ! t"
  shows "importGrowth d = specGrowth importQuantity_tons panel 1 t
       \<and> importGrowthYoY d = specGrowth importQuantity_tons panel 12 t
       \<and> valueGrowth d = specGrowth importValue_eur panel 1 t
       \<and> etsGrowth d = specGrowth etsPrice panel 1 t
       \<and> importGrowth d' = importGrowth d \<and> importGrowthYoY d' = importGrowthYoY d
       \<and> valueGrowth d' = valueGrowth d \<and> etsGrowth d' = etsGrowth d
       \<and> (importQuantity_tons (panel ! t) = Null \<longrightarrow>
            importGrowth d = Null \<and> importGrowthYoY d = Null)
       \<and> (importValue_eur (panel ! t) = Null \<longrightarrow> valueGrowth d = Null)
       \<and> (etsPrice (panel ! t) = Null \<longrightarrow> etsGrowth d = Null)"
proof -
  from assms(2,3) have d: "d = deriveEntry M panel t" by (simp add: derived_nth)
  from derived_script_nth [OF assms(2)] assms(4) obtain v
    where d': "d' = (deriveEntry M panel t)\<lparr>cbamDummy := v\<rparr>" by blast
  from merged_growth [OF assms(1,2), of M] d d' show ?thesis
    by (simp add: specGrowth_def)
qed

theorem growth_of_merged_panel_witness:
  "1 < length (mergeDatasets
       [\<lparr>date = 100, yearMonth = ''2020-01'', totalQuantity_tons = Number (Fin 100),
          totalValue_eur = Number (Fin 10), unit_value = Number (Fin 2)\<rparr>,
        \<lparr>date = 200, yearMonth = ''2020-02'', totalQuantity_tons = Number (Fin 150),
          totalValue_eur = Number (Fin 0), unit_value = Number (Fin 0)\<rparr>]
       [\<lparr>date = 200, yearMonth = ''2020-02'', price = Number (Fin 30)\<rparr>] [])
   \<and> importGrowth (calculateDerivedIndicators nanMath (mergeDatasets
       [\<lparr>date = 100, yearMonth = ''2020-01'', totalQuantity_tons = Number (Fin 100),
          totalValue_eur = Number (Fin 10), unit_value = Number (Fin 2)\<rparr>,
        \<lparr>date = 200, yearMonth = ''2020-02'', totalQuantity_tons = Number (Fin 150),
          totalValue_eur = Number (Fin 0), unit_value = Number (Fin 0)\<rparr>]
       [\<lparr>date = 200, yearMonth = ''2020-02'', price = Number (Fin 30)\<rparr>] []) ! 1)
     = Number (Fin 50)
   \<and> valueGrowth (calculateDerivedIndicators nanMath (mergeDatasets
       [\<lparr>date = 100, yearMonth = ''2020-01'', totalQuantity_tons = Number (Fin 100),
          totalValue_eur = Number (Fin 10), unit_value = Number (Fin 2)\<rparr>,
        \<lparr>date = 200, yearMonth = ''2020-02'', totalQuantity_tons = Number (Fin 150),
          totalValue_eur = Number (Fin 0), unit_value = Number (Fin 0)\<rparr>]
       [\<lparr>date = 200, yearMonth = ''2020-02'', price = Number (Fin 30)\<rparr>] []) ! 1)
     = Null
   \<and> etsGrowth (calculateDerivedIndicators nanMath (mergeDatasets
       [\<lparr>date = 100, yearMonth = ''2020-01'', totalQuantity_tons = Number (Fin 100),
          totalValue_eur = Number (Fin 10), unit_value = Number (Fin 2)\<rparr>,
        \<lparr>date = 200, yearMonth = ''2020-02'', totalQuantity_tons = Number (Fin 150),
          totalValue_eur = Number (Fin 0), unit_value = Number (Fin 0)\<rparr>]
       [\<lparr>date = 200, yearMonth = ''2020-02'', price = Number (Fin 30)\<rparr>] []) ! 1)
     = Null"
proof -
  let ?T = "[\<lparr>date = 100, yearMonth = ''2020-01'', totalQuantity_tons = Number (Fin 100),
          totalValue_eur = Number (Fin 10), unit_value = Number (Fin 2)\<rparr>,
        \<lparr>date = 200, yearMonth = ''2020-02'', totalQuantity_tons = Number (Fin 150),
          totalValue_eur = Number (Fin 0), unit_value = Number (Fin 0)\<rparr>]"
  let ?E = "[\<lparr>date = 200, yearMonth = ''2020-02'', price = Number (Fin 30)\<rparr>]"
  let ?panel = "mergeDatasets ?T ?E []"
  have p: "?panel =
     [(newRow 100 ''2020-01'')
        \<lparr>importQuantity_tons := Number (Fin 100), importValue_eur := Number (Fin 10),
         importUnitValue := Number (Fin 2), etsPrice := Null, industryIndex := Null\<rparr>,
      (newRow 200 ''2020-02'')
        \<lparr>importQuantity_tons := Number (Fin 150), importValue_eur := Null,
         importUnitValue := Null, etsPrice := Number (Fin 30), industryIndex := Null\<rparr>]"
    by (simp add: mergeDatasets_def mergedRows_def mergeRow_def newRow_def Let_def orNull_def
        optField_def)
  have len: "1 < length ?panel" by (simp add: p)
  from growth_of_merged_panel [OF refl len refl refl, of nanMath] len show ?thesis
    by (simp add: p specGrowth_def newRow_def jsub_def round64_eval)
qed

section \<open>Annual aggregation\<close>

lemma yearValues_snoc:
  "yearValues cal y key (rows @ [x])
     = (if rowYear cal x = y then pushPresent (yearValues cal y key rows) (key x)
        else yearValues cal y key rows)"
  by (simp add: yearValues_def pushPresent_def)

lemma find_snoc:
  "find P (xs @ [x]) = (case find P xs of Some e \<Rightarrow> Some e | None \<Rightarrow> if P x then Some x else None)"
  by (induction xs) auto

lemma find_Some_mem: "find P xs = Some x \<Longrightarrow> x \<in> set xs \<and> P x"
  by (auto simp: find_Some_iff)

lemma yearValues_none:
  "y \<notin> rowYear cal ` set rows \<Longrightarrow> yearValues cal y key rows = []"
  by (auto simp: yearValues_def filter_empty_conv)

lemma annualGroup_snoc_other:
  "rowYear cal x \<noteq> y \<Longrightarrow> annualGroup cal (rows @ [x]) y = annualGroup cal rows y"
  by (simp add: annualGroup_def yearValues_snoc find_snoc split: option.splits)

lemma annualGroup_snoc_same:
  "y \<in> rowYear cal ` set rows \<Longrightarrow> rowYear cal x = y \<Longrightarrow>
   annualGroup cal (rows @ [x]) y
     = (annualGroup cal rows y)\<lparr>
         accImportQuantity_tons :=
           pushPresent (accImportQuantity_tons (annualGroup cal rows y)) (importQuantity_tons x),
         accImportValue_eur :=
           pushPresent (accImportValue_eur (annualGroup cal rows y)) (importValue_eur x),
         accEtsPrice := pushPresent (accEtsPrice (annualGroup cal rows y)) (etsPrice x),
         accIndustryIndex :=
           pushPresent (accIndustryIndex (annualGroup cal rows y)) (industryIndex x)\<rparr>"
  by (auto simp: annualGroup_def yearValues_snoc find_snoc find_None_iff split: option.splits)

lemma annualGroup_snoc_new:
  assumes "rowYear cal x \<notin> rowYear cal ` set rows"
  shows "annualGroup cal (rows @ [x]) (rowYear cal x)
     = \<lparr>accYear = rowYear cal x, accDate = newYearsDay cal (rowYear cal x),
        accImportQuantity_tons = pushPresent [] (importQuantity_tons x),
        accImportValue_eur = pushPresent [] (importValue_eur x),
        accEtsPrice = pushPresent [] (etsPrice x),
        accIndustryIndex = pushPresent [] (industryIndex x),
        accCbamDummy = dummyOf x\<rparr>"
proof -
  from assms have "find (\<lambda>d. rowYear cal d = rowYear cal x) rows = None"
    unfolding find_None_iff by (metis imageI)
  with assms show ?thesis
    by (simp add: annualGroup_def yearValues_snoc yearValues_none find_snoc)
qed

lemma annualStep_invariant:
  assumes "annualMap = map (\<lambda>y. (y, annualGroup cal rows y)) ys"
    and "set ys = rowYear cal ` set rows" and "distinct ys"
  shows "annualStep cal annualMap x
           = map (\<lambda>y. (y, annualGroup cal (rows @ [x]) y))
               (if rowYear cal x \<in> set ys then ys else ys @ [rowYear cal x])"
proof -
  have keys: "map_of annualMap (rowYear cal x) = None \<longleftrightarrow> rowYear cal x \<notin> set ys"
    by (simp add: assms(1) map_of_eq_None_iff image_image)
  show ?thesis
  proof (cases "rowYear cal x \<in> set ys")
    case True
    then have "map_of annualMap (rowYear cal x) \<noteq> None" by (simp add: keys)
    with True show ?thesis
      unfolding annualStep_def Let_def using assms(2)
      by (auto simp: assms(1) annualGroup_snoc_other annualGroup_snoc_same)
  next
    case False
    then have "map_of annualMap (rowYear cal x) = None" by (simp add: keys)
    moreover from False assms(2) have new: "rowYear cal x \<notin> rowYear cal ` set rows" by simp
    moreover have "\<And>y. y \<in> set ys \<Longrightarrow> rowYear cal x \<noteq> y" using False by metis
    ultimately show ?thesis
      unfolding annualStep_def Let_def using False
      by (simp add: assms(1) annualGroup_snoc_other annualGroup_snoc_new [OF new]
          cong: map_cong)
  qed
qed

lemma annualMap_groups:
  "\<exists>ys. foldl (annualStep cal) [] rows = map (\<lambda>y. (y, annualGroup cal rows y)) ys
        \<and> set ys = rowYear cal ` set rows \<and> distinct ys"
proof (induction rows rule: rev_induct)
  case Nil
  show ?case by simp
next
  case (snoc x rows)
  then obtain ys where m: "foldl (annualStep cal) [] rows = map (\<lambda>y. (y, annualGroup cal rows y)) ys"
    and s: "set ys = rowYear cal ` set rows" and d: "distinct ys" by blast
  let ?ys = "if rowYear cal x \<in> set ys then ys else ys @ [rowYear cal x]"
  have "foldl (annualStep cal) [] (rows @ [x]) = map (\<lambda>y. (y, annualGroup cal (rows @ [x]) y)) ?ys"
    using annualStep_invariant [OF m s d] by simp
  moreover have "set ?ys = rowYear cal ` set (rows @ [x])" using s by auto
  moreover have "distinct ?ys" using d by simp
  ultimately show ?case by blast
qed


lemma aggregateToAnnual_rows:
  "\<exists>ys. set ys = rowYear cal ` set rows \<and> distinct ys
        \<and> aggregateToAnnual cal M rows
            = sort_key date (map (\<lambda>y. annualRow M (annualGroup cal rows y)) ys)"
proof -
  from annualMap_groups [of cal rows] obtain ys
    where m: "foldl (annualStep cal) [] rows = map (\<lambda>y. (y, annualGroup cal rows y)) ys"
      and s: "set ys = rowYear cal ` set rows" and d: "distinct ys" by blast
  have "aggregateToAnnual cal M rows
      = sort_key date (map (\<lambda>y. annualRow M (annualGroup cal rows y)) ys)"
  proof (cases "rows = []")
    case True
    with s show ?thesis by (simp add: aggregateToAnnual_def)
  next
    case False
    then show ?thesis by (simp add: aggregateToAnnual_def m o_def)
  qed
  with s d show ?thesis by blast
qed

lemma annualRow_fields:
  "year (annualRow M (annualGroup cal rows y)) = Number (Fin (of_int y))
   \<and> importQuantity_tons (annualRow M (annualGroup cal rows y))
       = ifPositive (sumJs (yearValues cal y importQuantity_tons rows))
           (sumJs (yearValues cal y importQuantity_tons rows))
   \<and> importValue_eur (annualRow M (annualGroup cal rows y))
       = ifPositive (sumJs (yearValues cal y importValue_eur rows))
           (sumJs (yearValues cal y importValue_eur rows))
   \<and> etsPrice (annualRow M (annualGroup cal rows y)) = average (yearValues cal y etsPrice rows)
   \<and> industryIndex (annualRow M (annualGroup cal rows y))
       = average (yearValues cal y industryIndex rows)"
  by (simp add: annualRow_def annualGroup_def Let_def newRow_def)







section \<open>The intervention gate and the descriptive fallback\<close>

lemma replicate_3: "replicate 3 x = [x, x, x]"
  by (simp add: eval_nat_numeral)

lemma replicate_8: "replicate 8 x = [x, x, x, x, x, x, x, x]"
  by (simp add: eval_nat_numeral)

lemma estimate_below_threshold:
  assumes "length (filter (isPreCBAM cal) panel) < 10 \<or> length (filter (isPostCBAM cal) panel) < 5"
  shows "\<exists>res s. estimateCBAMInteractionModel cal M panel freq = Inr res
           \<and> \<not> feasible res \<and> reason res = Some s \<and> s \<noteq> [] \<and> estimate res = None
           \<and> preCBAM res = length (filter (isPreCBAM cal) panel)
           \<and> postCBAM res = length (filter (isPostCBAM cal) panel)"
  using assms by (auto simp: estimateCBAMInteractionModel_def Let_def)

lemma check_below_threshold:
  assumes "length (filter (isPreCBAM cal) panel) < 10 \<or> length (filter (isPostCBAM cal) panel) < 5"
  shows "\<not> feasible (checkCBAMFeasibility cal panel)
       \<and> (\<exists>s. reason (checkCBAMFeasibility cal panel) = Some s \<and> s \<noteq> [])"
  using assms by (auto simp: checkCBAMFeasibility_def Let_def)

lemma descriptive_Some_iff:
  "calculateCBAMDescriptive cal panel \<noteq> None
     \<longleftrightarrow> preObserved cal panel \<noteq> [] \<and> postObserved cal panel \<noteq> []"
  by (auto simp: calculateCBAMDescriptive_def Let_def preObserved_def)

lemma descriptive_value:
  "calculateCBAMDescriptive cal panel = Some c \<Longrightarrow>
     preStats c = calcStats (preObserved cal panel)
     \<and> postStats c = calcStats (postObserved cal panel)
     \<and> importChange c
         = jmul (jdiv (jsub (avgImports (postStats c)) (avgImports (preStats c)))
                   (avgImports (preStats c))) (Fin 100)
     \<and> priceChange c
         = jmul (jdiv (jsub (avgPrice (postStats c)) (avgPrice (preStats c)))
                   (avgPrice (preStats c))) (Fin 100)"
  by (auto simp: calculateCBAMDescriptive_def Let_def split: if_splits)

text \<open>
  C7 as stated: for every panel below the thresholds the descriptive pre/post
  comparison is still computable. A panel with one observation of 2020 and none
  of 2023 to 2025 is below the thresholds, and \<open>calculateCBAMDescriptive\<close> returns
  \<open>null\<close> on it: there is no post-intervention mean to compare with.
\<close>

theorem descriptive_null_counterexample:
  "length (filter (isPostCBAM monthCalendar)
      [((newRow 600 ''2020-01'')
       \<lparr>importQuantity_tons := Number (Fin 100), etsPrice := Number (Fin 20)\<rparr>)]) < 5
   \<and> map_sum id feasible (estimateCBAMInteractionModel monthCalendar nanMath
      [((newRow 600 ''2020-01'')
       \<lparr>importQuantity_tons := Number (Fin 100), etsPrice := Number (Fin 20)\<rparr>)] ''monthly'') = Inr False
   \<and> calculateCBAMDescriptive monthCalendar
      [((newRow 600 ''2020-01'')
       \<lparr>importQuantity_tons := Number (Fin 100), etsPrice := Number (Fin 20)\<rparr>)] = None"
  by (simp add: estimateCBAMInteractionModel_def calculateCBAMDescriptive_def Let_def
      preObserved_def postObserved_def isPreCBAM_def isPostCBAM_def rowYear_def
      monthCalendar_def newRow_def)

text \<open>
  C7, amended. For every panel with fewer than 10 pre-intervention (year before
  2023) or fewer than 5 post-intervention (year 2023 to 2025) observations, the
  interaction estimator does not throw and returns \<open>feasible = false\<close> with a
  non-empty reason and no estimate, and so does the feasibility check. The
  descriptive comparison does not throw either: it returns the means of imports
  and of the carbon price of the two periods and their percent changes when the
  panel has at least one pre-intervention and one post-intervention row with
  both values present, and \<open>null\<close> otherwise.
\<close>

theorem interaction_gate_and_fallback:
  assumes "length (filter (isPreCBAM cal) panel) < 10 \<or> length (filter (isPostCBAM cal) panel) < 5"
  shows "(\<exists>res s. estimateCBAMInteractionModel cal M panel freq = Inr res
            \<and> \<not> feasible res \<and> reason res = Some s \<and> s \<noteq> [] \<and> estimate res = None)
       \<and> \<not> feasible (checkCBAMFeasibility cal panel)
       \<and> (\<exists>s. reason (checkCBAMFeasibility cal panel) = Some s \<and> s \<noteq> [])
       \<and> (calculateCBAMDescriptive cal panel \<noteq> None
            \<longleftrightarrow> preObserved cal panel \<noteq> [] \<and> postObserved cal panel \<noteq> [])
       \<and> (\<forall>c. calculateCBAMDescriptive cal panel = Some c \<longrightarrow>
              preStats c = calcStats (preObserved cal panel)
            \<and> postStats c = calcStats (postObserved cal panel)
            \<and> importChange c
                = jmul (jdiv (jsub (avgImports (postStats c)) (avgImports (preStats c)))
                          (avgImports (preStats c))) (Fin 100)
            \<and> priceChange c
                = jmul (jdiv (jsub (avgPrice (postStats c)) (avgPrice (preStats c)))
                          (avgPrice (preStats c))) (Fin 100))"
  using estimate_below_threshold [OF assms, of M freq] check_below_threshold [OF assms]
    descriptive_Some_iff [of cal panel] descriptive_value [of cal panel]
  by blast

theorem interaction_gate_and_fallback_witness:
  "(length (filter (isPreCBAM monthCalendar) (replicate 8
      ((newRow 600 ''2020-01'')
       \<lparr>importQuantity_tons := Number (Fin 100), etsPrice := Number (Fin 20)\<rparr>)
     @ replicate 3
      ((newRow 636 ''2023-01'')
       \<lparr>importQuantity_tons := Number (Fin 50), etsPrice := Number (Fin 80)\<rparr>))) < 10
      \<or> length (filter (isPostCBAM monthCalendar) (replicate 8
      ((newRow 600 ''2020-01'')
       \<lparr>importQuantity_tons := Number (Fin 100), etsPrice := Number (Fin 20)\<rparr>)
     @ replicate 3
      ((newRow 636 ''2023-01'')
       \<lparr>importQuantity_tons := Number (Fin 50), etsPrice := Number (Fin 80)\<rparr>))) < 5)
   \<and> map_sum id feasible (estimateCBAMInteractionModel monthCalendar nanMath (replicate 8
      ((newRow 600 ''2020-01'')
       \<lparr>importQuantity_tons := Number (Fin 100), etsPrice := Number (Fin 20)\<rparr>)
     @ replicate 3
      ((newRow 636 ''2023-01'')
       \<lparr>importQuantity_tons := Number (Fin 50), etsPrice := Number (Fin 80)\<rparr>)) ''monthly'')
       = Inr False
   \<and> calculateCBAMDescriptive monthCalendar (replicate 8
      ((newRow 600 ''2020-01'')
       \<lparr>importQuantity_tons := Number (Fin 100), etsPrice := Number (Fin 20)\<rparr>)
     @ replicate 3
      ((newRow 636 ''2023-01'')
       \<lparr>importQuantity_tons := Number (Fin 50), etsPrice := Number (Fin 80)\<rparr>)) \<noteq> None
   \<and> map_option (\<lambda>c. (avgImports (preStats c), avgImports (postStats c), importChange c))
        (calculateCBAMDescriptive monthCalendar (replicate 8
      ((newRow 600 ''2020-01'')
       \<lparr>importQuantity_tons := Number (Fin 100), etsPrice := Number (Fin 20)\<rparr>)
     @ replicate 3
      ((newRow 636 ''2023-01'')
       \<lparr>importQuantity_tons := Number (Fin 50), etsPrice := Number (Fin 80)\<rparr>)))
       = Some (Fin 100, Fin 50, Fin (- 50))
   \<and> map_option (\<lambda>c. (avgPrice (preStats c), avgPrice (postStats c), priceChange c))
        (calculateCBAMDescriptive monthCalendar (replicate 8
      ((newRow 600 ''2020-01'')
       \<lparr>importQuantity_tons := Number (Fin 100), etsPrice := Number (Fin 20)\<rparr>)
     @ replicate 3
      ((newRow 636 ''2023-01'')
       \<lparr>importQuantity_tons := Number (Fin 50), etsPrice := Number (Fin 80)\<rparr>)))
       = Some (Fin 20, Fin 80, Fin 300)"
proof -
  let ?panel = "(replicate 8
      ((newRow 600 ''2020-01'')
       \<lparr>importQuantity_tons := Number (Fin 100), etsPrice := Number (Fin 20)\<rparr>)
     @ replicate 3
      ((newRow 636 ''2023-01'')
       \<lparr>importQuantity_tons := Number (Fin 50), etsPrice := Number (Fin 80)\<rparr>))"
  note ev = isPreCBAM_def isPostCBAM_def rowYear_def monthCalendar_def newRow_def
  have pre: "filter (isPreCBAM monthCalendar) ?panel = replicate 8
      ((newRow 600 ''2020-01'')
       \<lparr>importQuantity_tons := Number (Fin 100), etsPrice := Number (Fin 20)\<rparr>)"
    and post: "filter (isPostCBAM monthCalendar) ?panel = replicate 3
      ((newRow 636 ''2023-01'')
       \<lparr>importQuantity_tons := Number (Fin 50), etsPrice := Number (Fin 80)\<rparr>)"
    by (simp_all add: ev)
  have po: "preObserved monthCalendar ?panel = replicate 8
      ((newRow 600 ''2020-01'')
       \<lparr>importQuantity_tons := Number (Fin 100), etsPrice := Number (Fin 20)\<rparr>)"
    and qo: "postObserved monthCalendar ?panel = replicate 3
      ((newRow 636 ''2023-01'')
       \<lparr>importQuantity_tons := Number (Fin 50), etsPrice := Number (Fin 80)\<rparr>)"
    by (simp_all add: preObserved_def postObserved_def ev)
  have below: "length (filter (isPreCBAM monthCalendar) ?panel) < 10
      \<or> length (filter (isPostCBAM monthCalendar) ?panel) < 5"
    unfolding pre post by simp
  note inst = interaction_gate_and_fallback [OF below, of nanMath "''monthly''"]
  have sp: "calcStats (replicate 8
      ((newRow 600 ''2020-01'')
       \<lparr>importQuantity_tons := Number (Fin 100), etsPrice := Number (Fin 20)\<rparr>))
      = \<lparr>nPeriod = 8, avgImports = Fin 100, avgPrice = Fin 20\<rparr>"
    unfolding replicate_3 replicate_8
    by (simp add: calcStats_def Let_def sumJs_def newRow_def round64_eval)
  have sq: "calcStats (replicate 3
      ((newRow 636 ''2023-01'')
       \<lparr>importQuantity_tons := Number (Fin 50), etsPrice := Number (Fin 80)\<rparr>))
      = \<lparr>nPeriod = 3, avgImports = Fin 50, avgPrice = Fin 80\<rparr>"
    unfolding replicate_3 replicate_8
    by (simp add: calcStats_def Let_def sumJs_def newRow_def round64_eval)
  from inst have some: "calculateCBAMDescriptive monthCalendar ?panel \<noteq> None"
    unfolding po qo by simp
  then obtain c where c: "calculateCBAMDescriptive monthCalendar ?panel = Some c" by blast
  with inst have "preStats c = calcStats (preObserved monthCalendar ?panel)"
    and "postStats c = calcStats (postObserved monthCalendar ?panel)"
    and "importChange c
           = jmul (jdiv (jsub (avgImports (postStats c)) (avgImports (preStats c)))
                     (avgImports (preStats c))) (Fin 100)"
    and "priceChange c
           = jmul (jdiv (jsub (avgPrice (postStats c)) (avgPrice (preStats c)))
                     (avgPrice (preStats c))) (Fin 100)"
    by blast+
  then have vals: "avgImports (preStats c) = Fin 100" "avgImports (postStats c) = Fin 50"
    "avgPrice (preStats c) = Fin 20" "avgPrice (postStats c) = Fin 80"
    "importChange c = Fin (- 50)" "priceChange c = Fin 300"
    unfolding po qo sp sq by (simp_all add: jsub_def round64_eval)
  from inst obtain res where "estimateCBAMInteractionModel monthCalendar nanMath ?panel ''monthly'' = Inr res"
    and "\<not> feasible res" by blast
  then have est: "map_sum id feasible
      (estimateCBAMInteractionModel monthCalendar nanMath ?panel ''monthly'') = Inr False"
    by simp
  from below est some c vals show ?thesis by simp
qed

section \<open>Frequency selection\<close>

lemma detectOverlappingPeriod_None:
  "filter allPresent rows = [] \<Longrightarrow> detectOverlappingPeriod rows = None"
  by (simp add: detectOverlappingPeriod_def Let_def)

lemma detectOverlappingPeriod_Some:
  "filter allPresent rows \<noteq> [] \<Longrightarrow>
     \<exists>found. detectOverlappingPeriod rows = Some found
       \<and> periods found = filter allPresent rows
       \<and> count found = length (filter allPresent rows)"
  by (auto simp: detectOverlappingPeriod_def Let_def)

lemma prepareDataset_cases:
  "prepareDataset cal M rows =
     (let valid = filter allPresent rows in
      if valid = [] then
        \<lparr>data = [], frequency = ''none'', overlap = None,
         message = ''No overlapping observations found across all required variables.''\<rparr>
      else if length valid < 20 then
        \<lparr>data = aggregateToAnnual cal M valid, frequency = ''annual'',
         overlap = detectOverlappingPeriod (aggregateToAnnual cal M valid),
         message = ''Monthly data insufficient ('' @ showNat (length valid)
            @ '' observations). Aggregated to annual frequency (''
            @ showNat (length (aggregateToAnnual cal M valid)) @ '' observations).''\<rparr>
      else
        \<lparr>data = valid, frequency = ''monthly'', overlap = detectOverlappingPeriod rows,
         message = ''Using monthly frequency with '' @ showNat (length valid)
            @ '' overlapping observations.''\<rparr>)"
proof (cases "filter allPresent rows = []")
  case True
  then show ?thesis
    by (simp add: prepareDataset_def detectOverlappingPeriod_None)
next
  case False
  from detectOverlappingPeriod_Some [OF this] obtain found
    where "detectOverlappingPeriod rows = Some found"
      and "periods found = filter allPresent rows"
      and "count found = length (filter allPresent rows)" by blast
  with False show ?thesis
    by (simp add: prepareDataset_def Let_def)
qed

lemma annual_total_of_year:
  assumes "y \<in> rowYear cal ` set rows"
  shows "\<exists>r \<in> set (aggregateToAnnual cal M rows).
           year r = Number (Fin (of_int y))
         \<and> importQuantity_tons r
             = ifPositive (sumJs (yearValues cal y importQuantity_tons rows))
                 (sumJs (yearValues cal y importQuantity_tons rows))"
proof -
  from aggregateToAnnual_rows [of cal rows M] obtain ys
    where s: "set ys = rowYear cal ` set rows"
      and a: "aggregateToAnnual cal M rows
            = sort_key date (map (\<lambda>y. annualRow M (annualGroup cal rows y)) ys)" by blast
  let ?r = "annualRow M (annualGroup cal rows y)"
  from assms s have "?r \<in> set (aggregateToAnnual cal M rows)"
    unfolding a by simp
  with annualRow_fields [of M cal rows y] show ?thesis by blast
qed

text \<open>
  C9. At monthly frequency \<open>prepareDataset\<close> returns exactly the input rows in
  which the six required fields are all non-null, and it chooses that frequency
  from 20 such rows on. With 1 to 19 such rows it returns the annual aggregation
  of those rows only, not of the whole panel: the annual import total of a year
  is the sum over the year's fully overlapping months.
\<close>

theorem prepareDataset_overlap_only:
  "(frequency (prepareDataset cal M rows) = ''monthly'' \<longrightarrow>
      data (prepareDataset cal M rows) = filter allPresent rows)
   \<and> (20 \<le> length (filter allPresent rows) \<longrightarrow>
        frequency (prepareDataset cal M rows) = ''monthly'')
   \<and> (1 \<le> length (filter allPresent rows) \<and> length (filter allPresent rows) < 20 \<longrightarrow>
        frequency (prepareDataset cal M rows) = ''annual''
        \<and> data (prepareDataset cal M rows) = aggregateToAnnual cal M (filter allPresent rows)
        \<and> (\<forall>y \<in> rowYear cal ` set (filter allPresent rows).
              \<exists>r \<in> set (data (prepareDataset cal M rows)).
                 year r = Number (Fin (of_int y))
               \<and> importQuantity_tons r
                   = ifPositive
                       (sumJs (yearValues cal y importQuantity_tons (filter allPresent rows)))
                       (sumJs (yearValues cal y importQuantity_tons (filter allPresent rows)))))"
proof (intro conjI impI)
  assume "frequency (prepareDataset cal M rows) = ''monthly''"
  then show "data (prepareDataset cal M rows) = filter allPresent rows"
    by (simp add: prepareDataset_cases Let_def split: if_splits)
next
  assume "20 \<le> length (filter allPresent rows)"
  then show "frequency (prepareDataset cal M rows) = ''monthly''"
    by (auto simp: prepareDataset_cases Let_def)
next
  assume a: "1 \<le> length (filter allPresent rows) \<and> length (filter allPresent rows) < 20"
  then show "frequency (prepareDataset cal M rows) = ''annual''"
    by (auto simp: prepareDataset_cases Let_def)
  from a show d: "data (prepareDataset cal M rows)
      = aggregateToAnnual cal M (filter allPresent rows)"
    by (auto simp: prepareDataset_cases Let_def)
  show "\<forall>y \<in> rowYear cal ` set (filter allPresent rows).
              \<exists>r \<in> set (data (prepareDataset cal M rows)).
                 year r = Number (Fin (of_int y))
               \<and> importQuantity_tons r
                   = ifPositive
                       (sumJs (yearValues cal y importQuantity_tons (filter allPresent rows)))
                       (sumJs (yearValues cal y importQuantity_tons (filter allPresent rows)))"
    unfolding d using annual_total_of_year by blast
qed

theorem prepareDataset_overlap_only_witness:
  "20 \<le> length (filter allPresent (replicate 20
      ((newRow 600 ''2020-01'')
        \<lparr>importQuantity_tons := Number (Fin 100), importValue_eur := Null,
         etsPrice := Number (Fin 10), industryIndex := Number (Fin 10),
         logImport := Number (Fin 1), logETS := Number (Fin 1), logIndustry := Number (Fin 1)\<rparr>) @
     [((newRow 601 ''2020-02'')
        \<lparr>importQuantity_tons := Number (Fin 999), importValue_eur := Null,
         etsPrice := Null, industryIndex := Null,
         logImport := Number (Fin 1), logETS := Null, logIndustry := Null\<rparr>)]))
   \<and> frequency (prepareDataset monthCalendar nanMath (replicate 20
      ((newRow 600 ''2020-01'')
        \<lparr>importQuantity_tons := Number (Fin 100), importValue_eur := Null,
         etsPrice := Number (Fin 10), industryIndex := Number (Fin 10),
         logImport := Number (Fin 1), logETS := Number (Fin 1), logIndustry := Number (Fin 1)\<rparr>) @
     [((newRow 601 ''2020-02'')
        \<lparr>importQuantity_tons := Number (Fin 999), importValue_eur := Null,
         etsPrice := Null, industryIndex := Null,
         logImport := Number (Fin 1), logETS := Null, logIndustry := Null\<rparr>)])) = ''monthly''
   \<and> data (prepareDataset monthCalendar nanMath (replicate 20
      ((newRow 600 ''2020-01'')
        \<lparr>importQuantity_tons := Number (Fin 100), importValue_eur := Null,
         etsPrice := Number (Fin 10), industryIndex := Number (Fin 10),
         logImport := Number (Fin 1), logETS := Number (Fin 1), logIndustry := Number (Fin 1)\<rparr>) @
     [((newRow 601 ''2020-02'')
        \<lparr>importQuantity_tons := Number (Fin 999), importValue_eur := Null,
         etsPrice := Null, industryIndex := Null,
         logImport := Number (Fin 1), logETS := Null, logIndustry := Null\<rparr>)]))
     = replicate 20
      ((newRow 600 ''2020-01'')
        \<lparr>importQuantity_tons := Number (Fin 100), importValue_eur := Null,
         etsPrice := Number (Fin 10), industryIndex := Number (Fin 10),
         logImport := Number (Fin 1), logETS := Number (Fin 1), logIndustry := Number (Fin 1)\<rparr>)
   \<and> 1 \<le> length (filter allPresent
     [((newRow 600 ''2020-01'')
        \<lparr>importQuantity_tons := Number (Fin 100), importValue_eur := Null,
         etsPrice := Number (Fin 10), industryIndex := Number (Fin 10),
         logImport := Number (Fin 1), logETS := Number (Fin 1), logIndustry := Number (Fin 1)\<rparr>),
      ((newRow 601 ''2020-02'')
        \<lparr>importQuantity_tons := Number (Fin 999), importValue_eur := Null,
         etsPrice := Null, industryIndex := Null,
         logImport := Number (Fin 1), logETS := Null, logIndustry := Null\<rparr>)])
   \<and> length (filter allPresent
     [((newRow 600 ''2020-01'')
        \<lparr>importQuantity_tons := Number (Fin 100), importValue_eur := Null,
         etsPrice := Number (Fin 10), industryIndex := Number (Fin 10),
         logImport := Number (Fin 1), logETS := Number (Fin 1), logIndustry := Number (Fin 1)\<rparr>),
      ((newRow 601 ''2020-02'')
        \<lparr>importQuantity_tons := Number (Fin 999), importValue_eur := Null,
         etsPrice := Null, industryIndex := Null,
         logImport := Number (Fin 1), logETS := Null, logIndustry := Null\<rparr>)]) < 20
   \<and> frequency (prepareDataset monthCalendar nanMath
     [((newRow 600 ''2020-01'')
        \<lparr>importQuantity_tons := Number (Fin 100), importValue_eur := Null,
         etsPrice := Number (Fin 10), industryIndex := Number (Fin 10),
         logImport := Number (Fin 1), logETS := Number (Fin 1), logIndustry := Number (Fin 1)\<rparr>),
      ((newRow 601 ''2020-02'')
        \<lparr>importQuantity_tons := Number (Fin 999), importValue_eur := Null,
         etsPrice := Null, industryIndex := Null,
         logImport := Number (Fin 1), logETS := Null, logIndustry := Null\<rparr>)]) = ''annual''
   \<and> (\<exists>r \<in> set (data (prepareDataset monthCalendar nanMath
     [((newRow 600 ''2020-01'')
        \<lparr>importQuantity_tons := Number (Fin 100), importValue_eur := Null,
         etsPrice := Number (Fin 10), industryIndex := Number (Fin 10),
         logImport := Number (Fin 1), logETS := Number (Fin 1), logIndustry := Number (Fin 1)\<rparr>),
      ((newRow 601 ''2020-02'')
        \<lparr>importQuantity_tons := Number (Fin 999), importValue_eur := Null,
         etsPrice := Null, industryIndex := Null,
         logImport := Number (Fin 1), logETS := Null, logIndustry := Null\<rparr>)])).
        year r = Number (Fin 2020) \<and> importQuantity_tons r = Number (Fin 100))"
proof -
  let ?r = "((newRow 600 ''2020-01'')
        \<lparr>importQuantity_tons := Number (Fin 100), importValue_eur := Null,
         etsPrice := Number (Fin 10), industryIndex := Number (Fin 10),
         logImport := Number (Fin 1), logETS := Number (Fin 1), logIndustry := Number (Fin 1)\<rparr>)"
  let ?r' = "((newRow 601 ''2020-02'')
        \<lparr>importQuantity_tons := Number (Fin 999), importValue_eur := Null,
         etsPrice := Null, industryIndex := Null,
         logImport := Number (Fin 1), logETS := Null, logIndustry := Null\<rparr>)"
  have c: "allPresent ?r" and c': "\<not> allPresent ?r'"
    by (simp_all add: allPresent_def newRow_def)
  have f20: "filter allPresent (replicate 20 ?r @ [?r']) = replicate 20 ?r"
    using c c' by simp
  have f1: "filter allPresent [?r, ?r'] = [?r]"
    using c c' by simp
  have y: "2020 \<in> rowYear monthCalendar ` set [?r]"
    by (simp add: rowYear_def monthCalendar_def newRow_def)
  have v: "yearValues monthCalendar 2020 importQuantity_tons [?r] = [Number (Fin 100)]"
    by (simp add: yearValues_def rowYear_def monthCalendar_def newRow_def)
  have s: "ifPositive (sumJs [Number (Fin 100)]) (sumJs [Number (Fin 100)]) = Number (Fin 100)"
    by (simp add: ifPositive_def sumJs_def jgt_def round64_eval)
  note big = prepareDataset_overlap_only [of monthCalendar nanMath "replicate 20 ?r @ [?r']"]
  note small = prepareDataset_overlap_only [of monthCalendar nanMath "[?r, ?r']"]
  have b1: "frequency (prepareDataset monthCalendar nanMath (replicate 20 ?r @ [?r'])) = ''monthly''"
    using big [unfolded f20] by simp
  have b2: "data (prepareDataset monthCalendar nanMath (replicate 20 ?r @ [?r'])) = replicate 20 ?r"
    using big [unfolded f20] b1 by blast
  have s1: "frequency (prepareDataset monthCalendar nanMath [?r, ?r']) = ''annual''"
    using small [unfolded f1] by simp
  have s2: "\<exists>r \<in> set (data (prepareDataset monthCalendar nanMath [?r, ?r'])).
        year r = Number (Fin 2020) \<and> importQuantity_tons r = Number (Fin 100)"
  proof -
    have "1 \<le> length [?r] \<and> length [?r] < (20::nat)" by simp
    with small [unfolded f1] have "\<forall>y \<in> rowYear monthCalendar ` set [?r].
        \<exists>r \<in> set (data (prepareDataset monthCalendar nanMath [?r, ?r'])).
           year r = Number (Fin (of_int y))
         \<and> importQuantity_tons r
             = ifPositive (sumJs (yearValues monthCalendar y importQuantity_tons [?r]))
                 (sumJs (yearValues monthCalendar y importQuantity_tons [?r]))"
      by blast
    from bspec [OF this y] show ?thesis
      unfolding v s by simp
  qed
  have l20: "20 \<le> length (filter allPresent (replicate 20 ?r @ [?r']))"
    unfolding f20 by simp
  have l1: "1 \<le> length (filter allPresent [?r, ?r']) \<and> length (filter allPresent [?r, ?r']) < 20"
    unfolding f1 by simp
  from l20 b1 b2 l1 s1 s2 show ?thesis by blast
qed

end
